theory Spec2Isabelle
  imports Complex_Main "HOL-Library.Word" "HOL-Library.Log_Nat"
begin

section \<open>Go values\<close>

text \<open>
  The three programs of the repository (\<^verbatim>\<open>render.go\<close>, the two-triangle program and
  the animated-cubes program) share \<^verbatim>\<open>compileShader\<close>; \<^verbatim>\<open>createProgram\<close> exists in two
  versions. Go's \<^verbatim>\<open>uint32\<close> and \<^verbatim>\<open>int32\<close> are 32-bit words (\<open>sint\<close> reads an \<^verbatim>\<open>int32\<close>);
  a Go \<^verbatim>\<open>error\<close> made by \<^verbatim>\<open>errors.New\<close> is its message, and \<^verbatim>\<open>nil\<close> is \<open>None\<close>.
\<close>

type_synonym uint32 = "32 word"
type_synonym int32 = "32 word"
type_synonym go_error = "string option"

definition NUL :: char where
  "NUL = CHR 0x00"

text \<open>
  A panic ends the process. \<open>Panic_error\<close> is \<^verbatim>\<open>panic(err)\<close> of the source; the other
  two are raised inside library functions the source calls: \<^verbatim>\<open>strings.Repeat\<close> with a
  negative count, and \<^verbatim>\<open>gl.Str\<close> on a string that does not end in a NUL byte.
\<close>

datatype panic =
    Panic_error string
  | Panic_negative_Repeat_count
  | Panic_Str_missing_null_terminator

definition strings_Repeat :: "string \<Rightarrow> int \<Rightarrow> panic + string" where
  "strings_Repeat s count =
     (if count < 0 then Inl Panic_negative_Repeat_count
      else Inr (concat (replicate (nat count) s)))"

definition gl_Str :: "string \<Rightarrow> panic + unit" where
  "gl_Str str =
     (if str \<noteq> [] \<and> last str = NUL then Inr ()
      else Inl Panic_Str_missing_null_terminator)"

section \<open>The GPU driver and the window system\<close>

text \<open>
  The OpenGL driver and GLFW are outside the repository. Every call the programs make is
  recorded, in order, in the \<open>trace\<close> of the world; the answers of the driver and of the
  window system are given by an \<open>env\<close>, about which nothing is assumed, so a theorem
  that holds for every \<open>env\<close> holds whatever the driver answers.
\<close>

datatype shader_type = VERTEX_SHADER | FRAGMENT_SHADER
datatype pname = COMPILE_STATUS | LINK_STATUS | INFO_LOG_LENGTH
datatype buffer_target = ARRAY_BUFFER | ELEMENT_ARRAY_BUFFER
datatype key_action = Release | Press

datatype 'm call =
    glfw_Init
  | glfw_WindowHint string string
  | glfw_CreateWindow nat nat string
  | MakeContextCurrent
  | gl_Init
  | CreateShader shader_type
  | ShaderSource uint32 string
  | CompileShader uint32
  | GetShaderiv uint32 pname
  | GetShaderInfoLog uint32 int32
  | CreateProgram
  | AttachShader uint32 uint32
  | DetachShader uint32 uint32
  | LinkProgram uint32
  | DeleteShader uint32
  | DeleteProgram uint32
  | GetProgramiv uint32 pname
  | GetProgramInfoLog uint32 int32
  | GenVertexArrays
  | GenBuffers
  | BindVertexArray uint32
  | BindBuffer buffer_target uint32
  | BufferData_float32 buffer_target nat "real list"
  | BufferData_uint32 buffer_target nat "uint32 list"
  | VertexAttribPointer nat nat nat nat
  | EnableVertexAttribArray nat
  | GetUniformLocation uint32 string
  | Enable_DEPTH_TEST
  | ShouldClose
  | GetKey_Escape
  | SetShouldClose bool
  | ClearColor real real real real
  | Clear bool bool
  | UseProgram uint32
  | UniformMatrix4fv int32 'm
  | DrawElements_TRIANGLES nat nat
  | DrawArrays_TRIANGLES nat nat
  | SwapBuffers
  | PollEvents
  | GetTime
  | DeleteVertexArrays uint32
  | DeleteBuffers uint32
  | Terminate

record env =
  object_name :: "nat \<Rightarrow> uint32"
  compile_status :: "uint32 \<Rightarrow> int32"
  shader_log_length :: "uint32 \<Rightarrow> int32"
  shader_log :: "uint32 \<Rightarrow> string"
  link_status :: "uint32 \<Rightarrow> int32"
  program_log_length :: "uint32 \<Rightarrow> int32"
  program_log :: "uint32 \<Rightarrow> string"
  uniform_location :: "uint32 \<Rightarrow> string \<Rightarrow> int32"
  glfw_init_error :: go_error
  create_window_error :: go_error
  gl_init_error :: go_error
  escape_after_poll :: "nat \<Rightarrow> key_action"
  close_request_at_poll :: "nat \<Rightarrow> bool"
  clock :: "nat \<Rightarrow> real"

record 'm world =
  trace :: "'m call list"
  created :: nat
  shaders :: "uint32 list"
  flagged :: "uint32 list"
  programs :: "uint32 list"
  attached :: "(uint32 \<times> uint32) list"
  should_close :: bool
  escape_key :: key_action
  polls :: nat
  time_reads :: nat

definition emit :: "'m call \<Rightarrow> 'm world \<Rightarrow> 'm world" where
  "emit c w = w\<lparr>trace := trace w @ [c]\<rparr>"

definition gl_FALSE :: int32 where
  "gl_FALSE = 0"

text \<open>
  Shader and program objects. \<open>shaders\<close> and \<open>programs\<close> list the objects the driver
  holds. \<^verbatim>\<open>glDeleteShader\<close> frees a shader object at once unless it is attached to a program
  object: then the driver only flags it, and frees it when it is detached (OpenGL 3.3 core,
  section 2.11.1).
\<close>

definition gl_CreateShader :: "env \<Rightarrow> shader_type \<Rightarrow> 'm world \<Rightarrow> uint32 \<times> 'm world" where
  "gl_CreateShader e ty w =
     (let h = object_name e (created w)
      in (h, emit (CreateShader ty) (w\<lparr>created := Suc (created w), shaders := shaders w @ [h]\<rparr>)))"

definition gl_CreateProgram :: "env \<Rightarrow> 'm world \<Rightarrow> uint32 \<times> 'm world" where
  "gl_CreateProgram e w =
     (let h = object_name e (created w)
      in (h, emit CreateProgram (w\<lparr>created := Suc (created w), programs := programs w @ [h]\<rparr>)))"

definition gl_AttachShader :: "uint32 \<Rightarrow> uint32 \<Rightarrow> 'm world \<Rightarrow> 'm world" where
  "gl_AttachShader p s w = emit (AttachShader p s) (w\<lparr>attached := attached w @ [(p, s)]\<rparr>)"

definition gl_DeleteShader :: "uint32 \<Rightarrow> 'm world \<Rightarrow> 'm world" where
  "gl_DeleteShader s w =
     emit (DeleteShader s)
       (if s \<in> snd ` set (attached w) then w\<lparr>flagged := flagged w @ [s]\<rparr>
        else w\<lparr>shaders := remove1 s (shaders w)\<rparr>)"

definition gl_GetShaderiv :: "env \<Rightarrow> uint32 \<Rightarrow> pname \<Rightarrow> 'm world \<Rightarrow> int32 \<times> 'm world" where
  "gl_GetShaderiv e s p w =
     ((case p of COMPILE_STATUS \<Rightarrow> compile_status e s
              | INFO_LOG_LENGTH \<Rightarrow> shader_log_length e s
              | LINK_STATUS \<Rightarrow> 0),
      emit (GetShaderiv s p) w)"

definition gl_GetProgramiv :: "env \<Rightarrow> uint32 \<Rightarrow> pname \<Rightarrow> 'm world \<Rightarrow> int32 \<times> 'm world" where
  "gl_GetProgramiv e s p w =
     ((case p of LINK_STATUS \<Rightarrow> link_status e s
              | INFO_LOG_LENGTH \<Rightarrow> program_log_length e s
              | COMPILE_STATUS \<Rightarrow> 0),
      emit (GetProgramiv s p) w)"

text \<open>
  \<^verbatim>\<open>glGetShaderInfoLog(shader, bufSize, NULL, buf)\<close> and \<^verbatim>\<open>glGetProgramInfoLog\<close> copy the
  log into the caller's buffer: at most \<open>bufSize\<close> bytes, the terminating NUL included,
  and nothing when \<open>bufSize\<close> is not positive. The source passes the memory of the Go
  string \<^verbatim>\<open>logBuf\<close> as the buffer, so \<^verbatim>\<open>logBuf\<close> reads as the copied log afterwards.
\<close>

definition write_info_log :: "string \<Rightarrow> int32 \<Rightarrow> string \<Rightarrow> string" where
  "write_info_log info bufSize buf =
     (if sint bufSize \<le> 0 then buf
      else let n = min (length info) (nat (sint bufSize) - 1)
           in take n info @ [NUL] @ drop (Suc n) buf)"

definition gl_GetShaderInfoLog :: "env \<Rightarrow> uint32 \<Rightarrow> int32 \<Rightarrow> string \<Rightarrow> 'm world \<Rightarrow> string \<times> 'm world" where
  "gl_GetShaderInfoLog e s bufSize buf w =
     (write_info_log (shader_log e s) bufSize buf, emit (GetShaderInfoLog s bufSize) w)"

definition gl_GetProgramInfoLog :: "env \<Rightarrow> uint32 \<Rightarrow> int32 \<Rightarrow> string \<Rightarrow> 'm world \<Rightarrow> string \<times> 'm world" where
  "gl_GetProgramInfoLog e p bufSize buf w =
     (write_info_log (program_log e p) bufSize buf, emit (GetProgramInfoLog p bufSize) w)"

section \<open>The program builder\<close>

text \<open>
  \<^verbatim>\<open>compileShader\<close> is the same in the three programs. It returns its pair
  \<^verbatim>\<open>(uint32, error)\<close> and the world after its calls, or panics.
\<close>

definition compileShader ::
  "env \<Rightarrow> string \<Rightarrow> shader_type \<Rightarrow> 'm world \<Rightarrow> panic + ((uint32 \<times> go_error) \<times> 'm world)" where
  "compileShader e src shaderType w0 =
     (let (shader, w1) = gl_CreateShader e shaderType w0;
          w2 = emit (ShaderSource shader src) w1;
          w3 = emit (CompileShader shader) w2;
          (status, w4) = gl_GetShaderiv e shader COMPILE_STATUS w3
      in if status = gl_FALSE then
           (let (msgLength, w5) = gl_GetShaderiv e shader INFO_LOG_LENGTH w4
            in case strings_Repeat [NUL] (sint (msgLength + 1)) of
                 Inl p \<Rightarrow> Inl p
               | Inr logBuf \<Rightarrow>
                   (case gl_Str logBuf of
                      Inl p \<Rightarrow> Inl p
                    | Inr _ \<Rightarrow>
                        (let (logBuf', w6) = gl_GetShaderInfoLog e shader msgLength logBuf w5
                         in Inr ((0, Some (''couldn't compile shader: '' @ logBuf')), w6))))
         else Inr ((shader, None), w4))"

text \<open>
  The link step of \<^verbatim>\<open>createProgram\<close>, from \<^verbatim>\<open>gl.CreateProgram()\<close> to the end of the
  function: the same text in both versions.
\<close>

definition link_step ::
  "env \<Rightarrow> uint32 \<Rightarrow> uint32 \<Rightarrow> 'm world \<Rightarrow> panic + ((uint32 \<times> go_error) \<times> 'm world)" where
  "link_step e vertexShader fragmentShader w0 =
     (let (shaderProgram, w1) = gl_CreateProgram e w0;
          w2 = gl_AttachShader shaderProgram vertexShader w1;
          w3 = gl_AttachShader shaderProgram fragmentShader w2;
          w4 = emit (LinkProgram shaderProgram) w3;
          w5 = gl_DeleteShader vertexShader w4;
          w6 = gl_DeleteShader fragmentShader w5;
          (status, w7) = gl_GetProgramiv e shaderProgram LINK_STATUS w6
      in if status = gl_FALSE then
           (let (msgLength, w8) = gl_GetProgramiv e shaderProgram INFO_LOG_LENGTH w7
            in case strings_Repeat [NUL] (sint (msgLength + 1)) of
                 Inl p \<Rightarrow> Inl p
               | Inr logBuf \<Rightarrow>
                   (case gl_Str logBuf of
                      Inl p \<Rightarrow> Inl p
                    | Inr _ \<Rightarrow>
                        (let (logBuf', w9) = gl_GetProgramInfoLog e shaderProgram msgLength logBuf w8
                         in Inr ((0, Some (''couldn't link shaders: '' @ logBuf')), w9))))
         else Inr ((shaderProgram, None), w7))"

text \<open>\<^verbatim>\<open>createProgram\<close> of \<^verbatim>\<open>render.go\<close> and of the animated-cubes program.\<close>

definition createProgram ::
  "env \<Rightarrow> string \<Rightarrow> string \<Rightarrow> 'm world \<Rightarrow> panic + ((uint32 \<times> go_error) \<times> 'm world)" where
  "createProgram e vertexSrc fragmentSrc w0 =
     (case compileShader e vertexSrc VERTEX_SHADER w0 of
        Inl p \<Rightarrow> Inl p
      | Inr ((vertexShader, err), w1) \<Rightarrow>
          (case err of
             Some msg \<Rightarrow> Inr ((0, Some msg), w1)
           | None \<Rightarrow>
               (case compileShader e fragmentSrc FRAGMENT_SHADER w1 of
                  Inl p \<Rightarrow> Inl p
                | Inr ((fragmentShader, err'), w2) \<Rightarrow>
                    (case err' of
                       Some msg \<Rightarrow> Inr ((0, Some msg), w2)
                     | None \<Rightarrow> link_step e vertexShader fragmentShader w2))))"

text \<open>
  \<^verbatim>\<open>createProgram\<close> of the two-triangle program: it calls \<^verbatim>\<open>panic(err)\<close> where the
  other version has \<^verbatim>\<open>return 0, err\<close>.
\<close>

definition createProgram_two_triangles ::
  "env \<Rightarrow> string \<Rightarrow> string \<Rightarrow> 'm world \<Rightarrow> panic + ((uint32 \<times> go_error) \<times> 'm world)" where
  "createProgram_two_triangles e vertexSrc fragmentSrc w0 =
     (case compileShader e vertexSrc VERTEX_SHADER w0 of
        Inl p \<Rightarrow> Inl p
      | Inr ((vertexShader, err), w1) \<Rightarrow>
          (case err of
             Some msg \<Rightarrow> Inl (Panic_error msg)
           | None \<Rightarrow>
               (case compileShader e fragmentSrc FRAGMENT_SHADER w1 of
                  Inl p \<Rightarrow> Inl p
                | Inr ((fragmentShader, err'), w2) \<Rightarrow>
                    (case err' of
                       Some msg \<Rightarrow> Inl (Panic_error msg)
                     | None \<Rightarrow> link_step e vertexShader fragmentShader w2))))"

text \<open>
  The log buffer of both functions: \<^verbatim>\<open>strings.Repeat("\\x00", int(msgLength+1))\<close> after
  the driver has copied the log into it with \<open>bufSize = msgLength\<close>.
\<close>

definition log_buffer :: "string \<Rightarrow> int32 \<Rightarrow> string" where
  "log_buffer info msgLength =
     write_info_log info msgLength (replicate (nat (sint (msgLength + 1))) NUL)"

section \<open>Shader sources\<close>

text \<open>
  The constants of the three programs, byte for byte. \<^verbatim>\<open>vertexShaderSrc\<close> and
  \<^verbatim>\<open>fragmentShaderSrc\<close> are those of \<^verbatim>\<open>render.go\<close>; the two-triangle program has the
  same \<^verbatim>\<open>fragmentShaderSrc\<close>, its own \<^verbatim>\<open>vertexShaderSrc\<close> and \<^verbatim>\<open>yellowFragSrc\<close>; the
  animated-cubes program has its own pair.
\<close>

definition vertexShaderSrc :: string where
  "vertexShaderSrc =
     ''#version 330 core\<newline>'' @
     ''layout (location = 0) in vec3 aPos;\<newline>'' @
     ''\<newline>'' @
     ''uniform mat4 model;\<newline>'' @
     ''uniform mat4 view;\<newline>'' @
     ''uniform mat4 projection;\<newline>'' @
     ''\<newline>'' @
     ''void main() {\<newline>'' @
     [CHR 0x09] @
     ''gl_Position = projection * view * model * vec4(aPos, 1.0);\<newline>'' @
     ''}'' @
     [NUL]"

definition fragmentShaderSrc :: string where
  "fragmentShaderSrc =
     ''#version 330 core\<newline>'' @
     ''out vec4 FragColor;\<newline>'' @
     ''void main() {\<newline>'' @
     [CHR 0x09] @
     ''FragColor = vec4(1.0f, 0.0f, 0.0f, 1.0f);\<newline>'' @
     ''}'' @
     [NUL]"

definition vertexShaderSrc_two_triangles :: string where
  "vertexShaderSrc_two_triangles =
     ''#version 330 core\<newline>'' @
     ''layout (location = 0) in vec3 aPos;\<newline>'' @
     ''void main() {\<newline>'' @
     [CHR 0x09] @
     ''gl_Position = vec4(aPos.x, aPos.y, aPos.z, 1.0);\<newline>'' @
     ''}'' @
     [NUL]"

definition yellowFragSrc :: string where
  "yellowFragSrc =
     ''#version 330 core\<newline>'' @
     ''out vec4 FragColor;\<newline>'' @
     ''void main() {\<newline>'' @
     [CHR 0x09] @
     ''FragColor = vec4(1.0f, 1.0f, 0.0f, 1.0f);\<newline>'' @
     ''}'' @
     [NUL]"

definition vertexShaderSrc_cubes :: string where
  "vertexShaderSrc_cubes =
     ''#version 330 core\<newline>'' @
     ''layout (location = 0) in vec3 aPos;\<newline>'' @
     ''layout (location = 1) in vec3 aColor;\<newline>'' @
     ''\<newline>'' @
     ''uniform mat4 model;\<newline>'' @
     ''uniform mat4 view;\<newline>'' @
     ''uniform mat4 projection;\<newline>'' @
     ''\<newline>'' @
     ''out vec3 ourColor;\<newline>'' @
     ''\<newline>'' @
     ''void main() {\<newline>'' @
     [CHR 0x09] @
     ''gl_Position = projection * view * model * vec4(aPos, 1.0);\<newline>'' @
     [CHR 0x09] @
     ''ourColor = aColor;\<newline>'' @
     ''}'' @
     [NUL]"

definition fragmentShaderSrc_cubes :: string where
  "fragmentShaderSrc_cubes =
     ''#version 330 core\<newline>'' @
     ''in vec3 ourColor;\<newline>'' @
     ''out vec4 FragColor;\<newline>'' @
     ''void main() {\<newline>'' @
     [CHR 0x09] @
     ''FragColor = vec4(ourColor, 1.0f);\<newline>'' @
     ''}'' @
     [NUL]"

section \<open>Observing a call\<close>

text \<open>What a call returned, and the world it left, when it did not panic.\<close>

definition returned :: "panic + ('a \<times> 'm world) \<Rightarrow> 'a option" where
  "returned r = (case r of Inl _ \<Rightarrow> None | Inr (x, _) \<Rightarrow> Some x)"

definition world_after :: "panic + ('a \<times> 'm world) \<Rightarrow> 'm world option" where
  "world_after r = (case r of Inl _ \<Rightarrow> None | Inr (_, w) \<Rightarrow> Some w)"

section \<open>Single-precision arithmetic\<close>

text \<open>
  Go's \<^verbatim>\<open>float32\<close> and \<^verbatim>\<open>float64\<close> are IEEE 754 binary32 and binary64. A finite value is the
  real number it stands for; converting to \<^verbatim>\<open>float32\<close> (a constant, an \<^verbatim>\<open>int\<close>, a
  \<^verbatim>\<open>float64\<close>, or the exact result of an operation) rounds to the nearest number with a
  24-bit significand, ties to even: \<open>f32\<close>. \<open>f64\<close> is the same with 53 bits. The
  exponent is not bounded here, so \<open>f32\<close> is the rounding of binary32 for results in its
  normal range (magnitude 0, or from \<open>2 powr -126\<close> up to, not including, \<open>2 powr 128\<close>);
  infinities and NaN are not represented.
\<close>

definition round_half_even :: "real \<Rightarrow> int" where
  "round_half_even y =
     (let f = \<lfloor>y\<rfloor>
      in if y - of_int f < 1 / 2 then f
         else if 1 / 2 < y - of_int f then f + 1
         else if even f then f else f + 1)"

text \<open>
  \<open>binade x\<close> is the exponent \<open>e\<close> with \<open>2\<^sup>e \<le> \<bar>x\<bar> < 2\<^sup>e\<^sup>+\<^sup>1\<close>, for \<open>x \<noteq> 0\<close>; with \<open>p\<close> bits
  the numbers of that binade are \<open>2\<^sup>e\<^sup>-\<^sup>p\<^sup>+\<^sup>1\<close> apart.
\<close>

definition binade :: "real \<Rightarrow> int" where
  "binade x =
     (if 1 \<le> \<bar>x\<bar> then int (floorlog 2 (nat \<lfloor>\<bar>x\<bar>\<rfloor>)) - 1
      else - int (floorlog 2 (nat \<lceil>1 / \<bar>x\<bar>\<rceil> - 1)))"

definition round_to :: "nat \<Rightarrow> real \<Rightarrow> real" where
  "round_to p x =
     (if x = 0 then 0
      else let e = binade x - (int p - 1)
           in of_int (round_half_even (x / 2 powi e)) * 2 powi e)"

definition f32 :: "real \<Rightarrow> real" where
  "f32 = round_to 24"

definition f64 :: "real \<Rightarrow> real" where
  "f64 = round_to 53"

text \<open>
  The Go specification lets a compiler fuse \<^verbatim>\<open>x*y + z\<close> into one operation with one
  rounding. In \<^verbatim>\<open>20.0*float32(i) + float32(glfw.GetTime())*50.0\<close> either product can be
  fused with the sum, or none.
\<close>

datatype fusion = Unfused | Fused_first | Fused_second

section \<open>The mathgl library\<close>

text \<open>
  \<^verbatim>\<open>mgl32\<close> is outside the repository. Its matrix functions are parameters: a theorem
  holds for every implementation of them. A \<^verbatim>\<open>Vec3\<close> is a triple of \<^verbatim>\<open>float32\<close>.
\<close>

type_synonym vec3 = "real \<times> real \<times> real"

record 'm mgl32 =
  Ident4 :: 'm
  Mul4 :: "'m \<Rightarrow> 'm \<Rightarrow> 'm"
  Translate3D :: "real \<Rightarrow> real \<Rightarrow> real \<Rightarrow> 'm"
  HomogRotate3D :: "real \<Rightarrow> vec3 \<Rightarrow> 'm"
  Perspective :: "real \<Rightarrow> real \<Rightarrow> real \<Rightarrow> real \<Rightarrow> 'm"

text \<open>
  Three functions of the library, whose results the claims about the programs depend on,
  are written out as the library computes them:
  \<^verbatim>\<open>DegToRad(angle) = angle * float32(math.Pi) / 180\<close>,
  \<^verbatim>\<open>v.Len() = float32(math.Sqrt(float64(v[0]*v[0] + v[1]*v[1] + v[2]*v[2])))\<close> and
  \<^verbatim>\<open>v.Normalize() = Vec3{v[0]*l, v[1]*l, v[2]*l}\<close> with \<^verbatim>\<open>l := 1.0 / v.Len()\<close>.
  \<^verbatim>\<open>math.Sqrt\<close> rounds correctly. For the zero vector Go's \<open>l\<close> is infinite, which is not
  represented; the programs normalise \<open>(0.5, 1, 0)\<close> only.
\<close>

definition DegToRad :: "real \<Rightarrow> real" where
  "DegToRad angle = f32 (f32 (angle * f32 pi) / 180)"

definition Vec3_Len :: "vec3 \<Rightarrow> real" where
  "Vec3_Len v =
     (case v of (x, y, z) \<Rightarrow>
        f32 (f64 (sqrt (f32 (f32 (f32 (x * x) + f32 (y * y)) + f32 (z * z))))))"

definition Vec3_Normalize :: "vec3 \<Rightarrow> vec3" where
  "Vec3_Normalize v =
     (case v of (x, y, z) \<Rightarrow>
        let l = f32 (1 / Vec3_Len v) in (f32 (x * l), f32 (y * l), f32 (z * l)))"

text \<open>The Euclidean length of a vector, in exact arithmetic.\<close>

definition norm3 :: "vec3 \<Rightarrow> real" where
  "norm3 v = (case v of (x, y, z) \<Rightarrow> sqrt (x * x + y * y + z * z))"

section \<open>The window\<close>

text \<open>
  GLFW records the state of a key and close requests while it processes events, that is
  inside \<^verbatim>\<open>glfw.PollEvents\<close>. The programs register no callback, so nothing but
  \<^verbatim>\<open>window.SetShouldClose\<close> and a close request sets the should-close flag, and nothing
  clears it. \<^verbatim>\<open>glfw.GetTime\<close> reads the clock.
\<close>

definition window_ShouldClose :: "'m world \<Rightarrow> bool \<times> 'm world" where
  "window_ShouldClose w = (should_close w, emit ShouldClose w)"

definition window_GetKey_Escape :: "'m world \<Rightarrow> key_action \<times> 'm world" where
  "window_GetKey_Escape w = (escape_key w, emit GetKey_Escape w)"

definition window_SetShouldClose :: "bool \<Rightarrow> 'm world \<Rightarrow> 'm world" where
  "window_SetShouldClose b w = emit (SetShouldClose b) (w\<lparr>should_close := b\<rparr>)"

definition glfw_PollEvents :: "env \<Rightarrow> 'm world \<Rightarrow> 'm world" where
  "glfw_PollEvents e w =
     emit PollEvents
       (w\<lparr>escape_key := escape_after_poll e (polls w),
          should_close := (should_close w \<or> close_request_at_poll e (polls w)),
          polls := Suc (polls w)\<rparr>)"

definition glfw_GetTime :: "env \<Rightarrow> 'm world \<Rightarrow> real \<times> 'm world" where
  "glfw_GetTime e w = (clock e (time_reads w), emit GetTime (w\<lparr>time_reads := Suc (time_reads w)\<rparr>))"

definition gl_GenVertexArrays :: "env \<Rightarrow> 'm world \<Rightarrow> uint32 \<times> 'm world" where
  "gl_GenVertexArrays e w =
     (object_name e (created w), emit GenVertexArrays (w\<lparr>created := Suc (created w)\<rparr>))"

definition gl_GenBuffers :: "env \<Rightarrow> 'm world \<Rightarrow> uint32 \<times> 'm world" where
  "gl_GenBuffers e w =
     (object_name e (created w), emit GenBuffers (w\<lparr>created := Suc (created w)\<rparr>))"

definition gl_GetUniformLocation :: "env \<Rightarrow> uint32 \<Rightarrow> string \<Rightarrow> 'm world \<Rightarrow> int32 \<times> 'm world" where
  "gl_GetUniformLocation e p name w = (uniform_location e p name, emit (GetUniformLocation p name) w)"

section \<open>The three programs\<close>

text \<open>The world when \<^verbatim>\<open>main\<close> starts.\<close>

definition initial_world :: "'m world" where
  "initial_world =
     \<lparr>trace = [], created = 0, shaders = [], flagged = [], programs = [], attached = [],
      should_close = False, escape_key = Release, polls = 0, time_reads = 0\<rparr>"

subsection \<open>What they share\<close>

text \<open>
  \<^verbatim>\<open>main\<close> from \<^verbatim>\<open>glfw.Init()\<close> to \<^verbatim>\<open>gl.Init()\<close>, the same in the three programs; each
  error is answered with \<^verbatim>\<open>panic(err)\<close>.
\<close>

definition startup :: "env \<Rightarrow> panic + 'm world" where
  "startup e =
     (let w0 = emit glfw_Init initial_world
      in case glfw_init_error e of
           Some err \<Rightarrow> Inl (Panic_error err)
         | None \<Rightarrow>
             (let w1 = emit (glfw_WindowHint ''Resizable'' ''False'') w0;
                  w2 = emit (glfw_WindowHint ''ContextVersionMajor'' ''3'') w1;
                  w3 = emit (glfw_WindowHint ''ContextVersionMinor'' ''3'') w2;
                  w4 = emit (glfw_WindowHint ''OpenGLProfile'' ''OpenGLCoreProfile'') w3;
                  w5 = emit (glfw_WindowHint ''OpenGLForwardCompatible'' ''True'') w4;
                  w6 = emit (glfw_CreateWindow 800 640 ''Hello world!'') w5
              in case create_window_error e of
                   Some err \<Rightarrow> Inl (Panic_error err)
                 | None \<Rightarrow>
                     (let w7 = emit MakeContextCurrent w6;
                          w8 = emit gl_Init w7
                      in case gl_init_error e of
                           Some err \<Rightarrow> Inl (Panic_error err)
                         | None \<Rightarrow> Inr w8)))"

text \<open>
  The head of every frame, \<^verbatim>\<open>if window.GetKey(glfw.KeyEscape) == glfw.Press {
  window.SetShouldClose(true) }\<close>, and its end, \<^verbatim>\<open>window.SwapBuffers(); glfw.PollEvents()\<close>.
\<close>

definition check_escape :: "'m world \<Rightarrow> 'm world" where
  "check_escape w0 =
     (let (key, w1) = window_GetKey_Escape w0
      in if key = Press then window_SetShouldClose True w1 else w1)"

definition present :: "env \<Rightarrow> 'm world \<Rightarrow> 'm world" where
  "present e w0 = (let w1 = emit SwapBuffers w0 in glfw_PollEvents e w1)"

text \<open>
  \<^verbatim>\<open>for !window.ShouldClose() { ... }\<close> with the block of the loop as \<open>body\<close>. The loop
  runs for as long as the window stays open; \<open>fuel\<close> bounds the frames, and \<open>None\<close>
  says that the loop was still running when the fuel ran out.
\<close>

primrec frame_loop :: "nat \<Rightarrow> ('m world \<Rightarrow> 'm world) \<Rightarrow> 'm world \<Rightarrow> 'm world option" where
  "frame_loop 0 body w =
     (let (closing, w1) = window_ShouldClose w in if closing then Some w1 else None)"
| "frame_loop (Suc fuel) body w =
     (let (closing, w1) = window_ShouldClose w
      in if closing then Some w1 else frame_loop fuel body (body w1))"

text \<open>The end of \<^verbatim>\<open>main\<close>, after the loop.\<close>

definition shutdown :: "uint32 \<Rightarrow> uint32 \<Rightarrow> uint32 \<Rightarrow> 'm world \<Rightarrow> 'm world" where
  "shutdown VAO VBO EBO w0 =
     (let w1 = emit (DeleteVertexArrays VAO) w0;
          w2 = emit (DeleteBuffers VBO) w1;
          w3 = emit (DeleteBuffers EBO) w2
      in emit Terminate w3)"

subsection \<open>\<^verbatim>\<open>render.go\<close>: one rotated quad\<close>

definition vertices :: "real list" where
  "vertices = map f32
     [0.5, 0.5, 0,
      0.5, - 0.5, 0,
      - 0.5, - 0.5, 0,
      - 0.5, 0.5, 0]"

definition indices :: "uint32 list" where
  "indices =
     [0, 1, 2,
      0, 2, 3]"

text \<open>From \<^verbatim>\<open>var VBO, VAO, EBO uint32\<close> to \<^verbatim>\<open>gl.BindVertexArray(0)\<close>.\<close>

definition upload_quad :: "env \<Rightarrow> real list \<Rightarrow> uint32 list \<Rightarrow> 'm world \<Rightarrow> (uint32 \<times> uint32 \<times> uint32) \<times> 'm world" where
  "upload_quad e vs ixs w0 =
     (let (VAO, w1) = gl_GenVertexArrays e w0;
          (VBO, w2) = gl_GenBuffers e w1;
          (EBO, w3) = gl_GenBuffers e w2;
          w4 = emit (BindVertexArray VAO) w3;
          w5 = emit (BindBuffer ARRAY_BUFFER VBO) w4;
          w6 = emit (BufferData_float32 ARRAY_BUFFER (length vs * 4) vs) w5;
          w7 = emit (BindBuffer ELEMENT_ARRAY_BUFFER EBO) w6;
          w8 = emit (BufferData_uint32 ELEMENT_ARRAY_BUFFER (length ixs * 4) ixs) w7;
          w9 = emit (VertexAttribPointer 0 3 (3 * 4) 0) w8;
          w10 = emit (EnableVertexAttribArray 0) w9;
          w11 = emit (BindBuffer ARRAY_BUFFER 0) w10;
          w12 = emit (BindVertexArray 0) w11
      in ((VAO, VBO, EBO), w12))"

definition frame_render ::
  "'m mgl32 \<Rightarrow> env \<Rightarrow> uint32 \<Rightarrow> uint32 \<Rightarrow> int32 \<Rightarrow> int32 \<Rightarrow> int32 \<Rightarrow> 'm world \<Rightarrow> 'm world" where
  "frame_render lib e VAO shaderProgram modelLocation viewLocation projectionLocation w0 =
     (let w1 = check_escape w0;
          w2 = emit (ClearColor (f32 0) (f32 1) (f32 0) (f32 1)) w1;
          w3 = emit (Clear True False) w2;
          w4 = emit (BindVertexArray VAO) w3;
          w5 = emit (UseProgram shaderProgram) w4;
          model = HomogRotate3D lib (DegToRad (f32 (- 55))) (f32 1, f32 0, f32 0);
          view = Translate3D lib (f32 0) (f32 0) (f32 (- 3));
          projection = Perspective lib (DegToRad (f32 45)) (f32 (800 / 640)) (f32 0.1) (f32 100);
          w6 = emit (UniformMatrix4fv modelLocation model) w5;
          w7 = emit (UniformMatrix4fv viewLocation view) w6;
          w8 = emit (UniformMatrix4fv projectionLocation projection) w7;
          w9 = emit (DrawElements_TRIANGLES 6 0) w8
      in present e w9)"

definition main_render :: "'m mgl32 \<Rightarrow> env \<Rightarrow> nat \<Rightarrow> (panic + 'm world) option" where
  "main_render lib e fuel =
     (case startup e of
        Inl p \<Rightarrow> Some (Inl p)
      | Inr w0 \<Rightarrow>
          (case createProgram e vertexShaderSrc fragmentShaderSrc w0 of
             Inl p \<Rightarrow> Some (Inl p)
           | Inr ((shaderProgram, err), w1) \<Rightarrow>
               (case err of
                  Some msg \<Rightarrow> Some (Inl (Panic_error msg))
                | None \<Rightarrow>
                    (let ((VAO, VBO, EBO), w2) = upload_quad e vertices indices w1;
                         (modelLocation, w3) = gl_GetUniformLocation e shaderProgram (''model'' @ [NUL]) w2;
                         (viewLocation, w4) = gl_GetUniformLocation e shaderProgram (''view'' @ [NUL]) w3;
                         (projectionLocation, w5) =
                            gl_GetUniformLocation e shaderProgram (''projection'' @ [NUL]) w4
                     in case frame_loop fuel
                               (frame_render lib e VAO shaderProgram modelLocation viewLocation
                                  projectionLocation) w5 of
                          None \<Rightarrow> None
                        | Some w6 \<Rightarrow> Some (Inr (shutdown VAO VBO EBO w6))))))"

subsection \<open>The two-triangle program\<close>

definition vertices_two_triangles :: "real list" where
  "vertices_two_triangles = map f32
     [0.5, 0.5, 0,
      0.5, - 0.5, 0,
      - 0.5, - 0.5, 0,
      1, - 0.5, 0]"

definition indices_two_triangles :: "uint32 list" where
  "indices_two_triangles =
     [0, 1, 2,
      0, 1, 3]"

definition frame_two_triangles ::
  "env \<Rightarrow> uint32 \<Rightarrow> uint32 \<Rightarrow> uint32 \<Rightarrow> 'm world \<Rightarrow> 'm world" where
  "frame_two_triangles e VAO redShaderProgram yellowShaderProgram w0 =
     (let w1 = check_escape w0;
          w2 = emit (ClearColor (f32 0) (f32 1) (f32 0) (f32 1)) w1;
          w3 = emit (Clear True False) w2;
          w4 = emit (BindVertexArray VAO) w3;
          w5 = emit (UseProgram redShaderProgram) w4;
          w6 = emit (DrawElements_TRIANGLES 3 0) w5;
          w7 = emit (UseProgram yellowShaderProgram) w6;
          w8 = emit (DrawElements_TRIANGLES 3 (3 * 4)) w7
      in present e w8)"

definition main_two_triangles :: "env \<Rightarrow> nat \<Rightarrow> (panic + 'm world) option" where
  "main_two_triangles e fuel =
     (case startup e of
        Inl p \<Rightarrow> Some (Inl p)
      | Inr w0 \<Rightarrow>
          (case createProgram_two_triangles e vertexShaderSrc_two_triangles fragmentShaderSrc w0 of
             Inl p \<Rightarrow> Some (Inl p)
           | Inr ((redShaderProgram, err), w1) \<Rightarrow>
               (case err of
                  Some msg \<Rightarrow> Some (Inl (Panic_error msg))
                | None \<Rightarrow>
                    (case createProgram_two_triangles e vertexShaderSrc_two_triangles yellowFragSrc w1 of
                       Inl p \<Rightarrow> Some (Inl p)
                     | Inr ((yellowShaderProgram, err'), w2) \<Rightarrow>
                         (case err' of
                            Some msg \<Rightarrow> Some (Inl (Panic_error msg))
                          | None \<Rightarrow>
                              (let ((VAO, VBO, EBO), w3) =
                                     upload_quad e vertices_two_triangles indices_two_triangles w2
                               in case frame_loop fuel
                                         (frame_two_triangles e VAO redShaderProgram yellowShaderProgram)
                                         w3 of
                                    None \<Rightarrow> None
                                  | Some w4 \<Rightarrow> Some (Inr (shutdown VAO VBO EBO w4))))))))"

text \<open>
  What an indexed draw of triangles reads: \<open>count\<close> indices of the bound index buffer
  (of \<^verbatim>\<open>uint32\<close>, four bytes each), from the byte \<open>offset\<close> on, and for each index the three
  floats of that position in the vertex buffer.
\<close>

definition fetch_indices :: "uint32 list \<Rightarrow> nat \<Rightarrow> nat \<Rightarrow> uint32 list" where
  "fetch_indices ixs count offset = take count (drop (offset div 4) ixs)"

definition fetch_position :: "real list \<Rightarrow> uint32 \<Rightarrow> real list" where
  "fetch_position vs i = take 3 (drop (3 * unat i) vs)"

subsection \<open>The animated-cubes program\<close>

definition vertices_cubes :: "real list" where
  "vertices_cubes = map f32
     [
        - 0.5, - 0.5, - 0.5, 1, 0, 0,
        0.5, - 0.5, - 0.5, 1, 0, 0,
        0.5, 0.5, - 0.5, 1, 0, 0,
        0.5, 0.5, - 0.5, 1, 0, 0,
        - 0.5, 0.5, - 0.5, 1, 0, 0,
        - 0.5, - 0.5, - 0.5, 1, 0, 0,

        - 0.5, - 0.5, 0.5, 0, 1, 0,
        0.5, - 0.5, 0.5, 0, 1, 0,
        0.5, 0.5, 0.5, 0, 1, 0,
        0.5, 0.5, 0.5, 0, 1, 0,
        - 0.5, 0.5, 0.5, 0, 1, 0,
        - 0.5, - 0.5, 0.5, 0, 1, 0,

        - 0.5, 0.5, 0.5, 0, 0, 1,
        - 0.5, 0.5, - 0.5, 0, 0, 1,
        - 0.5, - 0.5, - 0.5, 0, 0, 1,
        - 0.5, - 0.5, - 0.5, 0, 0, 1,
        - 0.5, - 0.5, 0.5, 0, 0, 1,
        - 0.5, 0.5, 0.5, 0, 0, 1,

        0.5, 0.5, 0.5, 1, 1, 0,
        0.5, 0.5, - 0.5, 1, 1, 0,
        0.5, - 0.5, - 0.5, 1, 1, 0,
        0.5, - 0.5, - 0.5, 1, 1, 0,
        0.5, - 0.5, 0.5, 1, 1, 0,
        0.5, 0.5, 0.5, 1, 1, 0,

        - 0.5, - 0.5, - 0.5, 1, 0, 1,
        0.5, - 0.5, - 0.5, 1, 0, 1,
        0.5, - 0.5, 0.5, 1, 0, 1,
        0.5, - 0.5, 0.5, 1, 0, 1,
        - 0.5, - 0.5, 0.5, 1, 0, 1,
        - 0.5, - 0.5, - 0.5, 1, 0, 1,

        - 0.5, 0.5, - 0.5, 0, 1, 1,
        0.5, 0.5, - 0.5, 0, 1, 1,
        0.5, 0.5, 0.5, 0, 1, 1,
        0.5, 0.5, 0.5, 0, 1, 1,
        - 0.5, 0.5, 0.5, 0, 1, 1,
        - 0.5, 0.5, - 0.5, 0, 1, 1
     ]"

definition cubePositions :: "vec3 list" where
  "cubePositions =
     [(f32 0, f32 0, f32 0),
      (f32 2, f32 5, f32 (- 15)),
      (f32 (- 1.5), f32 (- 2.2), f32 (- 2.5)),
      (f32 (- 3.8), f32 (- 2), f32 (- 12.3)),
      (f32 2.4, f32 (- 0.4), f32 (- 3.5)),
      (f32 (- 1.7), f32 3, f32 (- 7.5)),
      (f32 1.3, f32 (- 2), f32 (- 2.5)),
      (f32 1.5, f32 2, f32 (- 2.5)),
      (f32 1.5, f32 0.2, f32 (- 1.5)),
      (f32 (- 1.3), f32 1, f32 (- 1.5))]"

text \<open>From \<^verbatim>\<open>gl.Enable(gl.DEPTH_TEST)\<close> to \<^verbatim>\<open>gl.BindVertexArray(0)\<close>.\<close>

definition upload_cubes :: "env \<Rightarrow> 'm world \<Rightarrow> (uint32 \<times> uint32 \<times> uint32) \<times> 'm world" where
  "upload_cubes e w0 =
     (let w1 = emit Enable_DEPTH_TEST w0;
          (VAO, w2) = gl_GenVertexArrays e w1;
          (VBO, w3) = gl_GenBuffers e w2;
          (EBO, w4) = gl_GenBuffers e w3;
          w5 = emit (BindVertexArray VAO) w4;
          w6 = emit (BindBuffer ARRAY_BUFFER VBO) w5;
          w7 = emit (BufferData_float32 ARRAY_BUFFER (length vertices_cubes * 4) vertices_cubes) w6;
          w8 = emit (VertexAttribPointer 0 3 (6 * 4) 0) w7;
          w9 = emit (EnableVertexAttribArray 0) w8;
          w10 = emit (VertexAttribPointer 1 3 (6 * 4) (3 * 4)) w9;
          w11 = emit (EnableVertexAttribArray 1) w10;
          w12 = emit (BindBuffer ARRAY_BUFFER 0) w11;
          w13 = emit (BindVertexArray 0) w12
      in ((VAO, VBO, EBO), w13))"

text \<open>\<^verbatim>\<open>angle := 20.0*float32(i) + float32(glfw.GetTime())*50.0\<close>, with the time read as \<open>t\<close>.\<close>

definition rotation_angle :: "fusion \<Rightarrow> nat \<Rightarrow> real \<Rightarrow> real" where
  "rotation_angle fu i t =
     (case fu of
        Unfused \<Rightarrow> f32 (f32 (f32 20 * f32 (real i)) + f32 (f32 t * f32 50))
      | Fused_first \<Rightarrow> f32 (f32 20 * f32 (real i) + f32 (f32 t * f32 50))
      | Fused_second \<Rightarrow> f32 (f32 (f32 20 * f32 (real i)) + f32 t * f32 50))"


text \<open>
  The model matrix of instance \<open>i\<close> at time \<open>t\<close>: the three assignments to \<^verbatim>\<open>model\<close>. The
  index \<open>i\<close> is below 10, the length of \<^verbatim>\<open>cubePositions\<close>, wherever the loop uses it.
\<close>

definition model_matrix :: "'m mgl32 \<Rightarrow> fusion \<Rightarrow> nat \<Rightarrow> real \<Rightarrow> 'm" where
  "model_matrix lib fu i t =
     (let angle = rotation_angle fu i t;
          model = Ident4 lib;
          model = Mul4 lib model
                    (case cubePositions ! i of (x, y, z) \<Rightarrow> Translate3D lib x y z);
          model = Mul4 lib model
                    (HomogRotate3D lib (DegToRad angle) (Vec3_Normalize (f32 0.5, f32 1, f32 0)))
      in model)"

text \<open>\<^verbatim>\<open>for i := 0; i < 10; i++ { ... }\<close>, entered with \<open>i\<close>.\<close>

function draw_cubes :: "'m mgl32 \<Rightarrow> fusion \<Rightarrow> env \<Rightarrow> int32 \<Rightarrow> nat \<Rightarrow> 'm world \<Rightarrow> 'm world" where
  "draw_cubes lib fu e modelLocation i w0 =
     (if i < 10 then
        (let (t, w1) = glfw_GetTime e w0;
             model = model_matrix lib fu i t;
             w2 = emit (UniformMatrix4fv modelLocation model) w1;
             w3 = emit (DrawArrays_TRIANGLES 0 36) w2
         in draw_cubes lib fu e modelLocation (Suc i) w3)
      else w0)"
  by pat_completeness auto
termination
  by (relation "measure (\<lambda>(lib, fu, e, modelLocation, i, w0). 10 - i)") auto

declare draw_cubes.simps [simp del]

definition frame_cubes ::
  "'m mgl32 \<Rightarrow> fusion \<Rightarrow> env \<Rightarrow> uint32 \<Rightarrow> uint32 \<Rightarrow> int32 \<Rightarrow> int32 \<Rightarrow> int32 \<Rightarrow> 'm world \<Rightarrow> 'm world" where
  "frame_cubes lib fu e VAO shaderProgram modelLocation viewLocation projectionLocation w0 =
     (let w1 = check_escape w0;
          w2 = emit (ClearColor (f32 0) (f32 0) (f32 0) (f32 1)) w1;
          w3 = emit (Clear True True) w2;
          w4 = emit (BindVertexArray VAO) w3;
          w5 = emit (UseProgram shaderProgram) w4;
          view = Mul4 lib (Ident4 lib) (Translate3D lib (f32 0) (f32 0) (f32 (- 3)));
          projection = Mul4 lib (Ident4 lib)
                         (Perspective lib (DegToRad (f32 45)) (f32 (800 / 640)) (f32 0.1) (f32 100));
          w6 = emit (UniformMatrix4fv viewLocation view) w5;
          w7 = emit (UniformMatrix4fv projectionLocation projection) w6;
          w8 = draw_cubes lib fu e modelLocation 0 w7
      in present e w8)"

definition main_cubes :: "'m mgl32 \<Rightarrow> fusion \<Rightarrow> env \<Rightarrow> nat \<Rightarrow> (panic + 'm world) option" where
  "main_cubes lib fu e fuel =
     (case startup e of
        Inl p \<Rightarrow> Some (Inl p)
      | Inr w0 \<Rightarrow>
          (case createProgram e vertexShaderSrc_cubes fragmentShaderSrc_cubes w0 of
             Inl p \<Rightarrow> Some (Inl p)
           | Inr ((shaderProgram, err), w1) \<Rightarrow>
               (case err of
                  Some msg \<Rightarrow> Some (Inl (Panic_error msg))
                | None \<Rightarrow>
                    (let ((VAO, VBO, EBO), w2) = upload_cubes e w1;
                         (modelLocation, w3) = gl_GetUniformLocation e shaderProgram (''model'' @ [NUL]) w2;
                         (viewLocation, w4) = gl_GetUniformLocation e shaderProgram (''view'' @ [NUL]) w3;
                         (projectionLocation, w5) =
                            gl_GetUniformLocation e shaderProgram (''projection'' @ [NUL]) w4
                     in case frame_loop fuel
                               (frame_cubes lib fu e VAO shaderProgram modelLocation viewLocation
                                  projectionLocation) w5 of
                          None \<Rightarrow> None
                        | Some w6 \<Rightarrow> Some (Inr (shutdown VAO VBO EBO w6))))))"

section \<open>Reading a trace\<close>

text \<open>
  The draw calls among some calls, and the matrices uploaded to one uniform location, in
  order.
\<close>

definition is_draw :: "'m call \<Rightarrow> bool" where
  "is_draw c =
     (case c of DrawElements_TRIANGLES _ _ \<Rightarrow> True | DrawArrays_TRIANGLES _ _ \<Rightarrow> True | _ \<Rightarrow> False)"

definition upload_to :: "int32 \<Rightarrow> 'm call \<Rightarrow> 'm list" where
  "upload_to loc c =
     (case c of UniformMatrix4fv l m \<Rightarrow> if l = loc then [m] else [] | _ \<Rightarrow> [])"

definition uploads_to :: "int32 \<Rightarrow> 'm call list \<Rightarrow> 'm list" where
  "uploads_to loc cs = concat (map (upload_to loc) cs)"

text \<open>The calls made from one state of the world to a later one.\<close>

definition calls_between :: "'m world \<Rightarrow> 'm world \<Rightarrow> 'm call list" where
  "calls_between w w' = drop (length (trace w)) (trace w')"

text \<open>The calls of one cube: \<open>i\<close> is the instance and \<open>k\<close> the clock reading it gets.\<close>

definition instance_calls :: "'m mgl32 \<Rightarrow> fusion \<Rightarrow> env \<Rightarrow> int32 \<Rightarrow> nat \<Rightarrow> nat \<Rightarrow> 'm call list" where
  "instance_calls lib fu e modelLocation i k =
     [GetTime, UniformMatrix4fv modelLocation (model_matrix lib fu i (clock e k)),
      DrawArrays_TRIANGLES 0 36]"

section \<open>Sample environments\<close>

text \<open>
  A driver for the concrete runs below: it names the objects 1, 2, 3, ... in the order of
  their creation, answers every compile status with \<open>cs\<close> and every link status with
  \<open>ls\<close>, and reports the shader log \<^verbatim>\<open>bad\<close> (length 4 with its NUL) and the program log
  \<^verbatim>\<open>mismatch\<close> (length 9). The Escape key is down from the third poll on.
\<close>

definition sample_env :: "int32 \<Rightarrow> int32 \<Rightarrow> env" where
  "sample_env cs ls =
     \<lparr>object_name = (\<lambda>k. of_nat (Suc k)),
      compile_status = (\<lambda>_. cs),
      shader_log_length = (\<lambda>_. 4),
      shader_log = (\<lambda>_. ''bad''),
      link_status = (\<lambda>_. ls),
      program_log_length = (\<lambda>_. 9),
      program_log = (\<lambda>_. ''mismatch''),
      uniform_location = (\<lambda>_ name. if name = ''model'' @ [NUL] then 0
                                   else if name = ''view'' @ [NUL] then 1
                                   else if name = ''projection'' @ [NUL] then 2 else - 1),
      glfw_init_error = None,
      create_window_error = None,
      gl_init_error = None,
      escape_after_poll = (\<lambda>k. if k < 2 then Release else Press),
      close_request_at_poll = (\<lambda>_. False),
      clock = (\<lambda>k. real k / 64)\<rparr>"

text \<open>
  An implementation of the matrix functions for the concrete runs: a matrix is the
  expression that made it.
\<close>

datatype mat4 =
    Mat_Ident
  | Mat_Mul mat4 mat4
  | Mat_Translate real real real
  | Mat_Rotate real vec3
  | Mat_Perspective real real real real

definition free_mgl32 :: "mat4 mgl32" where
  "free_mgl32 =
     \<lparr>Ident4 = Mat_Ident, Mul4 = Mat_Mul, Translate3D = Mat_Translate,
      HomogRotate3D = Mat_Rotate, Perspective = Mat_Perspective\<rparr>"

section \<open>Facts about single-precision arithmetic\<close>

lemma two_powi: "(2::real) powi e = 2 powr of_int e"
  by (simp add: powr_real_of_int')

lemma binade_eq:
  assumes "x \<noteq> 0"
  shows "binade x = \<lfloor>log 2 \<bar>x\<bar>\<rfloor>"
proof (cases "1 \<le> \<bar>x\<bar>")
  case True
  define n where "n = nat \<lfloor>\<bar>x\<bar>\<rfloor>"
  define k where "k = floorlog 2 n"
  have n: "0 < n" "real n \<le> \<bar>x\<bar>" "\<bar>x\<bar> < real n + 1"
    using True unfolding n_def by linarith+
  have "2 ^ (k - 1) \<le> n \<and> n < 2 ^ k"
    unfolding k_def by (rule floorlog_bounds[OF n(1)]) simp
  then have b: "2 ^ (k - 1) \<le> n" "n < 2 ^ k" by blast+
  have "k \<noteq> 0" unfolding k_def floorlog_eq_zero_iff using n(1) by simp
  then have k: "0 < k" by simp
  have lo: "(2::real) powr of_int (int k - 1) \<le> \<bar>x\<bar>"
  proof -
    have "(2::real) powr of_int (int k - 1) = 2 ^ (k - 1)"
      using k by (simp add: powr_realpow[symmetric] of_nat_diff)
    also have "\<dots> = real (2 ^ (k - 1))" by simp
    also have "\<dots> \<le> real n" using b(1) by (simp only: of_nat_le_iff)
    finally show ?thesis using n(2) by linarith
  qed
  have hi: "\<bar>x\<bar> < 2 powr (of_int (int k - 1) + 1)"
  proof -
    have "Suc n \<le> 2 ^ k" using b(2) by simp
    then have "real (Suc n) \<le> real (2 ^ k)" by (simp only: of_nat_le_iff)
    then have "real n + 1 \<le> 2 ^ k" by simp
    also have "\<dots> = (2::real) powr (of_int (int k - 1) + 1)"
      by (simp add: powr_realpow[symmetric])
    finally show ?thesis using n(3) by linarith
  qed
  have "\<lfloor>log 2 \<bar>x\<bar>\<rfloor> = int k - 1"
    using lo hi assms by (subst floor_log_eq_powr_iff) simp_all
  then show ?thesis using True by (simp add: binade_def k_def n_def)
next
  case False
  define y where "y = 1 / \<bar>x\<bar>"
  define m where "m = nat \<lceil>y\<rceil>"
  define k where "k = floorlog 2 (m - 1)"
  have x: "0 < \<bar>x\<bar>" "\<bar>x\<bar> < 1" using False assms by simp_all
  then have y: "1 < y" by (simp add: y_def)
  have m: "2 \<le> m" "real m - 1 < y" "y \<le> real m"
    using y unfolding m_def by linarith+
  have m1: "0 < m - 1" using m(1) by simp
  have "2 ^ (k - 1) \<le> m - 1 \<and> m - 1 < 2 ^ k"
    unfolding k_def by (rule floorlog_bounds[OF m1]) simp
  then have b: "2 ^ (k - 1) \<le> m - 1" "m - 1 < 2 ^ k" by blast+
  have "k \<noteq> 0" unfolding k_def floorlog_eq_zero_iff using m1 by simp
  then have k: "0 < k" by simp
  have ylo: "2 ^ (k - 1) < y"
  proof -
    have "real (2 ^ (k - 1)) \<le> real (m - 1)" using b(1) by (simp only: of_nat_le_iff)
    then have "2 ^ (k - 1) \<le> real m - 1" using m(1) by (simp add: of_nat_diff)
    then show ?thesis using m(2) by linarith
  qed
  have yhi: "y \<le> 2 ^ k"
  proof -
    have "m \<le> 2 ^ k" using b(2) by simp
    then have "real m \<le> real (2 ^ k)" by (simp only: of_nat_le_iff)
    also have "real (2 ^ k) = 2 ^ k" by simp
    finally show ?thesis using m(3) by linarith
  qed
  have xy: "\<bar>x\<bar> = 1 / y" using x by (simp add: y_def)
  have lo: "(2::real) powr of_int (- int k) \<le> \<bar>x\<bar>"
  proof -
    have "(2::real) powr of_int (- int k) = 1 / 2 ^ k"
      by (simp add: powr_minus powr_realpow[symmetric] divide_inverse)
    also have "\<dots> \<le> 1 / y" using yhi y by (intro divide_left_mono) simp_all
    finally show ?thesis by (simp add: xy)
  qed
  have hi: "\<bar>x\<bar> < 2 powr (of_int (- int k) + 1)"
  proof -
    have "0 < y" using y by simp
    then have "1 / y < 1 / 2 ^ (k - 1)" using ylo by (intro divide_strict_left_mono) simp_all
    also have "\<dots> = (2::real) powr (- real (k - 1))"
      by (simp add: powr_minus powr_realpow[symmetric] divide_inverse)
    also have "- real (k - 1) = of_int (- int k) + 1" using k by (simp add: of_nat_diff)
    finally show ?thesis by (simp add: xy)
  qed
  have "\<lfloor>log 2 \<bar>x\<bar>\<rfloor> = - int k"
    using lo hi assms by (subst floor_log_eq_powr_iff) simp_all
  then show ?thesis using False by (simp add: binade_def k_def m_def y_def)
qed

lemma round_to_alt:
  "round_to p x =
     (if x = 0 then 0
      else let e = \<lfloor>log 2 \<bar>x\<bar>\<rfloor> - (int p - 1)
           in of_int (round_half_even (x / 2 powr of_int e)) * 2 powr of_int e)"
  by (simp add: round_to_def binade_eq two_powi Let_def)

lemma round_half_even_of_int: "round_half_even (of_int m) = m"
  by (simp add: round_half_even_def)

lemma round_half_even_error: "\<bar>of_int (round_half_even y) - y\<bar> \<le> 1 / 2"
proof -
  have "of_int \<lfloor>y\<rfloor> \<le> y" "y < of_int \<lfloor>y\<rfloor> + 1" by linarith+
  then show ?thesis
    by (auto simp: round_half_even_def Let_def abs_le_iff)
qed

lemma floor_log2_bounds:
  assumes "x \<noteq> 0"
  shows "2 powr of_int \<lfloor>log 2 \<bar>x\<bar>\<rfloor> \<le> \<bar>x\<bar>" and "\<bar>x\<bar> < 2 powr (of_int \<lfloor>log 2 \<bar>x\<bar>\<rfloor> + 1)"
proof -
  have pos: "0 < \<bar>x\<bar>" using assms by simp
  have "of_int \<lfloor>log 2 \<bar>x\<bar>\<rfloor> \<le> log 2 \<bar>x\<bar>" by linarith
  then have "2 powr of_int \<lfloor>log 2 \<bar>x\<bar>\<rfloor> \<le> 2 powr log 2 \<bar>x\<bar>" by simp
  then show "2 powr of_int \<lfloor>log 2 \<bar>x\<bar>\<rfloor> \<le> \<bar>x\<bar>" using pos by simp
  have "log 2 \<bar>x\<bar> < of_int \<lfloor>log 2 \<bar>x\<bar>\<rfloor> + 1" by linarith
  then have "2 powr log 2 \<bar>x\<bar> < 2 powr (of_int \<lfloor>log 2 \<bar>x\<bar>\<rfloor> + 1)" by simp
  then show "\<bar>x\<bar> < 2 powr (of_int \<lfloor>log 2 \<bar>x\<bar>\<rfloor> + 1)" using pos by simp
qed

lemma round_to_exact:
  assumes m: "\<bar>m\<bar> < 2 ^ p" and x: "x = of_int m * 2 powr of_int k"
  shows "round_to p x = x"
proof (cases "x = 0")
  case True
  then show ?thesis by (simp add: round_to_alt)
next
  case False
  define E where "E = \<lfloor>log 2 \<bar>x\<bar>\<rfloor>"
  define e where "e = E - (int p - 1)"
  have "\<bar>x\<bar> = of_int \<bar>m\<bar> * 2 powr of_int k" by (simp add: x abs_mult)
  also have "\<dots> < 2 ^ p * 2 powr of_int k"
  proof -
    have "(of_int \<bar>m\<bar> :: real) < of_int (2 ^ p)" using m by (simp only: of_int_less_iff)
    then show ?thesis by simp
  qed
  also have "\<dots> = 2 powr (of_int (int p) + of_int k)"
    by (simp add: powr_add powr_realpow)
  finally have up: "\<bar>x\<bar> < 2 powr (of_int (int p + k))" by simp
  have "2 powr of_int E \<le> \<bar>x\<bar>" unfolding E_def using floor_log2_bounds(1)[OF False] .
  then have "(2::real) powr of_int E < 2 powr (of_int (int p + k))" using up by linarith
  then have "E < int p + k" by simp
  then have ek: "e \<le> k" by (simp add: e_def)
  define j where "j = nat (k - e)"
  have kj: "k = e + int j" using ek by (simp add: j_def)
  have "x / 2 powr of_int e = of_int m * 2 powr (of_int k - of_int e)"
    by (simp add: x powr_diff)
  also have "\<dots> = of_int m * 2 ^ j"
    by (simp add: kj powr_realpow)
  also have "\<dots> = of_int (m * 2 ^ j)" by simp
  finally have y: "x / 2 powr of_int e = of_int (m * 2 ^ j)" .
  have "round_to p x = of_int (round_half_even (x / 2 powr of_int e)) * 2 powr of_int e"
    using False by (simp add: round_to_alt Let_def e_def E_def)
  also have "\<dots> = (x / 2 powr of_int e) * 2 powr of_int e"
    unfolding y round_half_even_of_int ..
  also have "\<dots> = x" by simp
  finally show ?thesis .
qed

lemma round_to_error:
  assumes "0 < p"
  shows "\<bar>round_to p x - x\<bar> \<le> \<bar>x\<bar> / 2 ^ p"
proof (cases "x = 0")
  case True
  then show ?thesis by (simp add: round_to_alt)
next
  case False
  define E where "E = \<lfloor>log 2 \<bar>x\<bar>\<rfloor>"
  define e where "e = E - (int p - 1)"
  define y where "y = x / 2 powr of_int e"
  have r: "round_to p x = of_int (round_half_even y) * 2 powr of_int e"
    using False by (simp add: round_to_alt Let_def e_def E_def y_def)
  have xy: "x = y * 2 powr of_int e" by (simp add: y_def)
  have "\<bar>round_to p x - x\<bar> = \<bar>of_int (round_half_even y) - y\<bar> * 2 powr of_int e"
    unfolding r by (subst xy) (simp add: left_diff_distrib[symmetric] abs_mult)
  also have "\<dots> \<le> (1 / 2) * 2 powr of_int e"
    by (intro mult_right_mono round_half_even_error) simp
  also have "\<dots> = 2 powr of_int E / 2 ^ p"
  proof -
    have "of_int e = of_int E - real p + 1" by (simp add: e_def)
    then show ?thesis by (simp add: powr_diff powr_add powr_realpow)
  qed
  also have "\<dots> \<le> \<bar>x\<bar> / 2 ^ p"
    using floor_log2_bounds(1)[OF False] by (simp add: E_def divide_right_mono)
  finally show ?thesis .
qed

lemma f32_int: "\<bar>n\<bar> < 16777216 \<Longrightarrow> f32 (of_int n) = of_int n"
  unfolding f32_def by (rule round_to_exact[where m = n and k = 0]) simp_all

lemma f32_error: "\<bar>f32 x - x\<bar> \<le> \<bar>x\<bar> / 16777216"
  using round_to_error[of 24 x] by (simp add: f32_def)

lemma round_to_relative:
  assumes "0 < p"
  obtains d where "round_to p x = x * (1 + d)" and "\<bar>d\<bar> \<le> 1 / 2 ^ p"
proof (cases "x = 0")
  case True
  show ?thesis by (rule that[of 0]) (simp_all add: True round_to_alt)
next
  case False
  define d where "d = (round_to p x - x) / x"
  have 1: "round_to p x = x * (1 + d)" using False by (simp add: d_def field_simps)
  have "\<bar>d\<bar> = \<bar>round_to p x - x\<bar> / \<bar>x\<bar>" by (simp add: d_def)
  also have "\<dots> \<le> (\<bar>x\<bar> / 2 ^ p) / \<bar>x\<bar>"
    by (intro divide_right_mono round_to_error assms) simp
  also have "\<dots> = 1 / 2 ^ p" using False by simp
  finally show ?thesis using 1 that by blast
qed

lemma f32_relative:
  obtains d where "f32 x = x * (1 + d)" and "\<bar>d\<bar> \<le> 1 / 16777216"
  using round_to_relative[of 24 x] by (auto simp: f32_def)

lemma f64_relative:
  obtains d where "f64 x = x * (1 + d)" and "\<bar>d\<bar> \<le> 1 / 9007199254740992"
  using round_to_relative[of 53 x] by (auto simp: f64_def)

lemma three_roundings:
  fixes u :: real
  assumes "\<bar>d1\<bar> \<le> u" "\<bar>d2\<bar> \<le> u" "\<bar>d3\<bar> \<le> u" "u \<le> 1 / 4"
  shows "\<bar>(1 + d1) * (1 + d2) * (1 + d3) - 1\<bar> \<le> 4 * u"
proof -
  have u0: "0 \<le> u" using assms(1) by linarith
  have "u * u \<le> u * (1 / 4)" using assms(4) u0 by (intro mult_left_mono)
  then have uu: "u * u \<le> u / 4" by simp
  have a12: "\<bar>d1 * d2\<bar> \<le> u * u" unfolding abs_mult by (intro mult_mono assms u0) simp_all
  have a13: "\<bar>d1 * d3\<bar> \<le> u * u" unfolding abs_mult by (intro mult_mono assms u0) simp_all
  have a23: "\<bar>d2 * d3\<bar> \<le> u * u" unfolding abs_mult by (intro mult_mono assms u0) simp_all
  have "\<bar>d1 * d2 * d3\<bar> \<le> (u * u) * u" unfolding abs_mult[of "d1 * d2"]
    by (intro mult_mono a12 assms) (simp_all add: u0)
  also have "\<dots> \<le> (u / 4) * u" by (intro mult_right_mono uu u0)
  also have "\<dots> \<le> (u / 4) * 1" using assms(4) u0 by (intro mult_left_mono) simp_all
  finally have a123: "\<bar>d1 * d2 * d3\<bar> \<le> u / 4" by simp
  have "(1 + d1) * (1 + d2) * (1 + d3) - 1
          = d1 + d2 + d3 + d1 * d2 + d1 * d3 + d2 * d3 + d1 * d2 * d3"
    by (simp add: algebra_simps)
  then have "\<bar>(1 + d1) * (1 + d2) * (1 + d3) - 1\<bar>
          \<le> \<bar>d1\<bar> + \<bar>d2\<bar> + \<bar>d3\<bar> + \<bar>d1 * d2\<bar> + \<bar>d1 * d3\<bar> + \<bar>d2 * d3\<bar> + \<bar>d1 * d2 * d3\<bar>"
    by linarith
  also have "\<dots> \<le> u + u + u + u * u + u * u + u * u + u / 4"
    using assms(1-3) a12 a13 a23 a123 by linarith
  also have "\<dots> \<le> 4 * u" using uu by linarith
  finally show ?thesis .
qed

lemma f32_0: "f32 0 = 0" by (simp add: f32_def round_to_alt)


lemma f32_numeral_simps:
  "f32 1 = 1" "f32 20 = 20" "f32 50 = 50"
  using f32_int[of 1] f32_int[of 20] f32_int[of 50] by simp_all

lemma f32_dyadic:
  "\<bar>m\<bar> < 16777216 \<Longrightarrow> f32 (of_int m / 2 ^ j) = of_int m / 2 ^ j"
  unfolding f32_def
  by (rule round_to_exact[where m = m and k = "- int j"])
     (simp_all add: powr_minus powr_realpow field_simps)

lemma round_to_representable:
  assumes "0 < p"
  obtains m k where "round_to p x = of_int m * 2 powr of_int k" and "\<bar>m\<bar> < 2 ^ p"
proof (cases "x = 0")
  case True
  show ?thesis by (rule that[of 0 0]) (simp_all add: True round_to_alt)
next
  case False
  define E where "E = \<lfloor>log 2 \<bar>x\<bar>\<rfloor>"
  define e where "e = E - (int p - 1)"
  define y where "y = x / 2 powr of_int e"
  define r where "r = round_half_even y"
  have rt: "round_to p x = of_int r * 2 powr of_int e"
    using False by (simp add: round_to_alt Let_def e_def E_def y_def r_def)
  have "\<bar>x\<bar> < 2 powr (of_int E + 1)" unfolding E_def using floor_log2_bounds(2)[OF False] .
  also have "\<dots> = 2 ^ p * 2 powr of_int e"
  proof -
    have "of_int E + 1 = real p + of_int e" by (simp add: e_def)
    then show ?thesis by (simp add: powr_add powr_realpow)
  qed
  finally have "\<bar>y\<bar> < 2 ^ p"
    by (simp add: y_def abs_divide pos_divide_less_eq)
  then have y1: "y < of_int (2 ^ p)" and y2: "- of_int (2 ^ p) < y" by simp_all
  have "\<lfloor>y\<rfloor> < 2 ^ p" using y1 by (simp only: floor_less_iff)
  moreover have "- (2 ^ p) \<le> \<lfloor>y\<rfloor>" using y2 by (simp add: le_floor_iff)
  ultimately have rb: "\<bar>r\<bar> \<le> 2 ^ p"
    by (auto simp: r_def round_half_even_def Let_def)
  show ?thesis
  proof (cases "\<bar>r\<bar> < 2 ^ p")
    case True
    then show ?thesis using rt that by blast
  next
    case False
    then have "\<bar>r\<bar> = 2 ^ p" using rb by simp
    then consider "r = 2 ^ p" | "r = - (2 ^ p)" by (auto simp: abs_if split: if_splits)
    then show ?thesis
    proof cases
      case 1
      have "round_to p x = of_int 1 * 2 powr of_int (int p + e)"
        by (simp add: rt 1 powr_add powr_realpow)
      moreover have "\<bar>1 :: int\<bar> < 2 ^ p" using assms by simp
      ultimately show ?thesis using that by blast
    next
      case 2
      have "round_to p x = of_int (- 1) * 2 powr of_int (int p + e)"
        by (simp add: rt 2 powr_add powr_realpow)
      moreover have "\<bar>- 1 :: int\<bar> < 2 ^ p" using assms by simp
      ultimately show ?thesis using that by blast
    qed
  qed
qed

lemma f32_idem: "f32 (f32 x) = f32 x"
proof -
  obtain m k where "f32 x = of_int m * 2 powr of_int k" "\<bar>m\<bar> < 2 ^ 24"
    using round_to_representable[of 24 x] by (auto simp: f32_def)
  then show ?thesis unfolding f32_def by (intro round_to_exact[where m = m and k = k]) 
qed

lemma f32_half_of_f32: "f32 (f32 x / 2) = f32 x / 2"
proof -
  obtain m k where mk: "f32 x = of_int m * 2 powr of_int k" "\<bar>m\<bar> < 2 ^ 24"
    using round_to_representable[of 24 x] by (auto simp: f32_def)
  have "f32 x / 2 = of_int m * 2 powr of_int (k - 1)"
    by (simp add: mk(1) powr_diff)
  then show ?thesis unfolding f32_def using mk(2)
    by (intro round_to_exact[where m = m and k = "k - 1"]) (simp_all add: f32_def)
qed

subsection \<open>Degrees, the rotation angle and the rotation axis\<close>

lemma DegToRad_error: "\<bar>DegToRad a - a * pi / 180\<bar> \<le> \<bar>a * pi / 180\<bar> / 4194304"
proof -
  define P where "P = f32 pi"
  define M where "M = f32 (a * P)"
  define R where "R = f32 (M / 180)"
  obtain d1 where d1: "P = pi * (1 + d1)" "\<bar>d1\<bar> \<le> 1 / 16777216"
    unfolding P_def by (rule f32_relative)
  obtain d2 where d2: "M = a * P * (1 + d2)" "\<bar>d2\<bar> \<le> 1 / 16777216"
    unfolding M_def by (rule f32_relative)
  obtain d3 where d3: "R = M / 180 * (1 + d3)" "\<bar>d3\<bar> \<le> 1 / 16777216"
    unfolding R_def by (rule f32_relative)
  have "DegToRad a = R" by (simp add: DegToRad_def R_def M_def P_def)
  also have "\<dots> = (a * pi / 180) * ((1 + d1) * (1 + d2) * (1 + d3))"
    by (simp add: d3(1) d2(1) d1(1))
  finally have "DegToRad a - a * pi / 180 = (a * pi / 180) * ((1 + d1) * (1 + d2) * (1 + d3) - 1)"
    by (simp add: algebra_simps)
  then have "\<bar>DegToRad a - a * pi / 180\<bar> = \<bar>a * pi / 180\<bar> * \<bar>(1 + d1) * (1 + d2) * (1 + d3) - 1\<bar>"
    by (simp only: abs_mult)
  also have "\<dots> \<le> \<bar>a * pi / 180\<bar> * (4 * (1 / 16777216))"
    by (intro mult_left_mono three_roundings d1 d2 d3) simp_all
  finally show ?thesis by simp
qed



lemma f32_simple_values:
  "f32 (1 / 2) = 1 / 2" "f32 (1 / 4) = 1 / 4" "f32 (5 / 4) = 5 / 4"
  using f32_dyadic[of 1 1] f32_dyadic[of 1 2] f32_dyadic[of 5 2] by simp_all

lemma axis_value: "(f32 0.5, f32 1, f32 0) = (1 / 2, 1, 0)"
  by (simp add: f32_simple_values f32_numeral_simps f32_0)

lemma axis_length: "Vec3_Len (1 / 2, 1, 0) = f32 (f64 (sqrt (5 / 4)))"
  by (simp add: Vec3_Len_def f32_simple_values f32_numeral_simps f32_0)

lemma axis_components:
  "Vec3_Normalize (f32 0.5, f32 1, f32 0) =
     (f32 (1 / f32 (f64 (sqrt (5 / 4)))) / 2, f32 (1 / f32 (f64 (sqrt (5 / 4)))), 0)"
proof -
  let ?l = "f32 (1 / f32 (f64 (sqrt (5 / 4))))"
  have "f32 (1 / 2 * ?l) = ?l / 2" using f32_half_of_f32[of "1 / f32 (f64 (sqrt (5 / 4)))"] by simp
  then show ?thesis
    unfolding axis_value
    by (simp add: Vec3_Normalize_def axis_length f32_0 f32_idem Let_def)
qed

lemma axis_norm:
  "\<bar>norm3 (Vec3_Normalize (f32 0.5, f32 1, f32 0)) - 1\<bar> \<le> 1 / 1000000"
proof -
  define S where "S = sqrt (5 / 4 :: real)"
  define Q where "Q = f64 S"
  define L where "L = f32 Q"
  define l where "l = f32 (1 / L)"
  have S: "0 < S" "S * S = 5 / 4" by (simp_all add: S_def)
  obtain a where a: "Q = S * (1 + a)" "\<bar>a\<bar> \<le> 1 / 9007199254740992"
    unfolding Q_def by (rule f64_relative)
  obtain b where b: "L = Q * (1 + b)" "\<bar>b\<bar> \<le> 1 / 16777216"
    unfolding L_def by (rule f32_relative)
  obtain c where c: "l = 1 / L * (1 + c)" "\<bar>c\<bar> \<le> 1 / 16777216"
    unfolding l_def by (rule f32_relative)
  have ab: "1 / 2 \<le> (1 + a) * (1 + b)"
  proof -
    have "3 / 4 \<le> 1 + a" "3 / 4 \<le> 1 + b" using a(2) b(2) by (simp_all add: abs_le_iff)
    then have "(3 / 4) * (3 / 4) \<le> (1 + a) * (1 + b)" by (intro mult_mono) simp_all
    then show ?thesis by simp
  qed
  have Lpos: "0 < L" unfolding b(1) a(1) using S(1) ab
    by (metis less_le_trans mult.assoc mult_pos_pos zero_less_divide_1_iff zero_less_numeral)
  have lpos: "0 \<le> l" unfolding c(1) using Lpos c(2) by (simp add: abs_le_iff)
  have n: "norm3 (Vec3_Normalize (f32 0.5, f32 1, f32 0)) = l * S"
  proof -
    have "norm3 (Vec3_Normalize (f32 0.5, f32 1, f32 0)) = sqrt (l / 2 * (l / 2) + l * l)"
      unfolding axis_components by (simp add: norm3_def l_def L_def Q_def S_def)
    also have "l / 2 * (l / 2) + l * l = (l * S)\<^sup>2"
      using S(2) by (simp add: power2_eq_square algebra_simps)
    also have "sqrt ((l * S)\<^sup>2) = l * S" using lpos S(1) by simp
    finally show ?thesis .
  qed
  define D where "D = (1 + a) * (1 + b)"
  have D: "1 / 2 \<le> D" using ab by (simp add: D_def)
  have LD: "L = S * D" by (simp add: b(1) a(1) D_def)
  have "l * S = (1 + c) / (S * D) * S" by (simp add: c(1) LD)
  also have "\<dots> = (1 + c) / D" using S(1) by simp
  finally have "l * S - 1 = (1 + c - D) / D" using D by (simp add: field_simps)
  also have "1 + c - D = c - a - b - a * b" by (simp add: D_def algebra_simps)
  finally have "l * S - 1 = (c - a - b - a * b) / ((1 + a) * (1 + b))" by (simp add: D_def)
  then have "\<bar>l * S - 1\<bar> = \<bar>c - a - b - a * b\<bar> / ((1 + a) * (1 + b))"
    using ab by (simp add: abs_divide)
  also have "\<dots> \<le> \<bar>c - a - b - a * b\<bar> / (1 / 2)"
    using ab by (intro divide_left_mono) simp_all
  also have "\<dots> = 2 * \<bar>c - a - b - a * b\<bar>" by simp
  also have "\<dots> \<le> 2 * (3 / 16777216)"
  proof -
    have "\<bar>a * b\<bar> \<le> (1 / 9007199254740992) * (1 / 16777216)"
      unfolding abs_mult by (intro mult_mono a b) simp_all
    then have "\<bar>c - a - b - a * b\<bar> \<le> 3 / 16777216" using a(2) b(2) c(2) by linarith
    then show ?thesis by simp
  qed
  also have "\<dots> \<le> 1 / 1000000" by simp
  finally show ?thesis unfolding n .
qed

lemma axis_nonzero: "Vec3_Normalize (f32 0.5, f32 1, f32 0) \<noteq> (0, 0, 0)"
  using axis_norm by (auto simp: norm3_def)

lemma unit_x_norm: "norm3 (f32 1, f32 0, f32 0) = 1"
  by (simp add: norm3_def f32_numeral_simps f32_0)

section \<open>Facts about the program builder\<close>

lemma sint_succ_nonneg: 
  assumes a: "0 \<le> sint ((n::32 word) + 1)" 
  shows "sint n = sint (n + 1) - 1"
proof -
  have lt: "sint n < 2147483648" using sint_lt[of n] by simp
  have ge: "- 2147483648 \<le> sint n" using sint_ge[of n] by simp
  have eq: "sint (n + 1) = signed_take_bit 31 (sint n + 1)"
    by (simp add: sint_word_ariths)
  show ?thesis
  proof (cases "sint n = 2147483647")
    case True
    then have "sint (n + 1) = signed_take_bit 31 (2147483648::int)" using eq by simp
    also have "\<dots> = - 2147483648" by (simp add: signed_take_bit_eq_take_bit_minus)
    finally show ?thesis using a by simp
  next
    case False
    then have "sint n + 1 < 2 ^ 31" "- (2 ^ 31) \<le> sint n + 1" using lt ge by simp_all
    then have "signed_take_bit 31 (sint n + 1) = sint n + 1"
      by (intro signed_take_bit_int_eq_self) 
    then show ?thesis using eq by simp
  qed
qed

lemma log_buffer_length:
  assumes "0 < sint (n + 1)"
  shows "int (length (log_buffer info n)) = sint n + 1"
proof -
  have n: "sint n = sint (n + 1) - 1" using assms by (intro sint_succ_nonneg) simp
  then have "0 \<le> sint n" using assms by simp
  then show ?thesis using n
    by (auto simp: log_buffer_def write_info_log_def Let_def min_def nat_add_distrib)
qed

lemma log_buffer_last:
  assumes "0 < sint (n + 1)"
  shows "log_buffer info n \<noteq> [] \<and> last (log_buffer info n) = NUL"
proof -
  have n: "sint n = sint (n + 1) - 1" using assms by (intro sint_succ_nonneg) simp
  then have "0 \<le> sint n" using assms by simp
  then show ?thesis using n
    by (auto simp: log_buffer_def write_info_log_def Let_def min_def nat_add_distrib)
qed

lemma log_buffer_exact:
  assumes "0 < sint (n + 1)" and "sint n = int (length info) + 1"
  shows "log_buffer info n = info @ [NUL, NUL]"
proof -
  have "sint n = sint (n + 1) - 1" using assms(1) by (intro sint_succ_nonneg) simp
  then have "sint (n + 1) = int (length info) + 2" using assms(2) by simp
  then show ?thesis using assms(2)
    by (simp add: log_buffer_def write_info_log_def Let_def nat_add_distrib replicate_append_same[symmetric])
qed

lemma compileShader_eq:
  "compileShader e src ty w =
     (let s = object_name e (created w);
          w4 = w\<lparr>created := Suc (created w), shaders := shaders w @ [s],
                 trace := trace w @ [CreateShader ty, ShaderSource s src, CompileShader s,
                                     GetShaderiv s COMPILE_STATUS]\<rparr>;
          n = shader_log_length e s
      in if compile_status e s = gl_FALSE then
           (if sint (n + 1) < 0 then Inl Panic_negative_Repeat_count
            else if sint (n + 1) = 0 then Inl Panic_Str_missing_null_terminator
            else Inr ((0, Some (''couldn't compile shader: '' @ log_buffer (shader_log e s) n)),
                      w4\<lparr>trace := trace w4 @ [GetShaderiv s INFO_LOG_LENGTH, GetShaderInfoLog s n]\<rparr>))
         else Inr ((s, None), w4))"
  by (simp add: compileShader_def gl_CreateShader_def gl_GetShaderiv_def gl_GetShaderInfoLog_def
      emit_def Let_def strings_Repeat_def gl_Str_def log_buffer_def)

lemma link_step_eq:
  "link_step e v f w =
     (let p = object_name e (created w);
          w7 = w\<lparr>created := Suc (created w), programs := programs w @ [p],
                 attached := attached w @ [(p, v), (p, f)],
                 flagged := flagged w @ [v, f],
                 trace := trace w @ [CreateProgram, AttachShader p v, AttachShader p f,
                                     LinkProgram p, DeleteShader v, DeleteShader f,
                                     GetProgramiv p LINK_STATUS]\<rparr>;
          n = program_log_length e p
      in if link_status e p = gl_FALSE then
           (if sint (n + 1) < 0 then Inl Panic_negative_Repeat_count
            else if sint (n + 1) = 0 then Inl Panic_Str_missing_null_terminator
            else Inr ((0, Some (''couldn't link shaders: '' @ log_buffer (program_log e p) n)),
                      w7\<lparr>trace := trace w7 @ [GetProgramiv p INFO_LOG_LENGTH, GetProgramInfoLog p n]\<rparr>))
         else Inr ((p, None), w7))"
  by (simp add: link_step_def gl_CreateProgram_def gl_GetProgramiv_def gl_GetProgramInfoLog_def
      gl_AttachShader_def gl_DeleteShader_def
      emit_def Let_def strings_Repeat_def gl_Str_def log_buffer_def)

lemma sample_env_simps:
  "object_name (sample_env cs ls) k = of_nat (Suc k)"
  "compile_status (sample_env cs ls) s = cs"
  "shader_log_length (sample_env cs ls) s = 4"
  "shader_log (sample_env cs ls) s = ''bad''"
  "link_status (sample_env cs ls) s = ls"
  "program_log_length (sample_env cs ls) s = 9"
  "program_log (sample_env cs ls) s = ''mismatch''"
  by (simp_all add: sample_env_def)

lemma initial_world_simps:
  "trace initial_world = []" "created initial_world = 0" "shaders initial_world = []"
  "flagged initial_world = []" "programs initial_world = []" "attached initial_world = []"
  "should_close initial_world = False" "escape_key initial_world = Release"
  "polls initial_world = 0" "time_reads initial_world = 0"
  by (simp_all add: initial_world_def)

lemma log_buffer_bad: "log_buffer ''bad'' 4 = ''bad'' @ [NUL, NUL]"
  by (rule log_buffer_exact) simp_all

lemma log_buffer_mismatch: "log_buffer ''mismatch'' 9 = ''mismatch'' @ [NUL, NUL]"
  by (rule log_buffer_exact) simp_all

lemma createProgram_compiled:
  assumes "compile_status e (object_name e (created w)) \<noteq> gl_FALSE"
      and "compile_status e (object_name e (Suc (created w))) \<noteq> gl_FALSE"
  shows "createProgram e vs fs w =
           link_step e (object_name e (created w)) (object_name e (Suc (created w)))
             (w\<lparr>created := Suc (Suc (created w)),
                shaders := shaders w @ [object_name e (created w), object_name e (Suc (created w))],
                trace := trace w @
                  [CreateShader VERTEX_SHADER, ShaderSource (object_name e (created w)) vs,
                   CompileShader (object_name e (created w)),
                   GetShaderiv (object_name e (created w)) COMPILE_STATUS,
                   CreateShader FRAGMENT_SHADER, ShaderSource (object_name e (Suc (created w))) fs,
                   CompileShader (object_name e (Suc (created w))),
                   GetShaderiv (object_name e (Suc (created w))) COMPILE_STATUS]\<rparr>)"
  using assms by (simp add: createProgram_def compileShader_eq Let_def)

lemma createProgram_two_triangles_compiled:
  assumes "compile_status e (object_name e (created w)) \<noteq> gl_FALSE"
      and "compile_status e (object_name e (Suc (created w))) \<noteq> gl_FALSE"
  shows "createProgram_two_triangles e vs fs w = createProgram e vs fs w"
  using assms by (simp add: createProgram_def createProgram_two_triangles_def compileShader_eq Let_def)

lemma sint_succ_in_range:
  assumes "0 \<le> sint (n::32 word)" and "sint n < 2147483647"
  shows "sint (n + 1) = sint n + 1"
proof -
  have "sint n + 1 < 2 ^ 31" "- (2 ^ 31) \<le> sint n + 1" using assms by simp_all
  then have "signed_take_bit 31 (sint n + 1) = sint n + 1"
    by (intro signed_take_bit_int_eq_self)
  then show ?thesis by (simp add: sint_word_ariths)
qed

subsection \<open>A failed compilation\<close>

text \<open>
  The driver rejects the vertex shader of \<^verbatim>\<open>render.go\<close>. \<^verbatim>\<open>compileShader\<close> returns handle
  0 and the error; the shader object it created is still held by the driver afterwards
  (one object, none before): the function has no \<^verbatim>\<open>gl.DeleteShader\<close> on this path.
\<close>

theorem failed_compile_keeps_shader_counterexample:
  "returned (compileShader (sample_env gl_FALSE 1) vertexShaderSrc VERTEX_SHADER initial_world)
     = Some (0, Some (''couldn't compile shader: bad'' @ [NUL, NUL])) \<and>
   map_option shaders (world_after
     (compileShader (sample_env gl_FALSE 1) vertexShaderSrc VERTEX_SHADER initial_world)) = Some [1] \<and>
   shaders initial_world = []"
  by (simp add: compileShader_eq sample_env_simps log_buffer_bad returned_def world_after_def
      initial_world_def Let_def gl_FALSE_def)


text \<open>
  C1, as the code has it. When the compile status is \<^verbatim>\<open>gl.FALSE\<close> and the driver reports a
  log length \<open>n\<close> with \<open>0 \<le> n < 2\<^sup>3\<^sup>1 - 1\<close>, \<^verbatim>\<open>compileShader\<close> returns handle 0 and the
  error \<^verbatim>\<open>couldn't compile shader: \<close> followed by the log buffer (the driver's log and two
  NUL bytes when \<open>n\<close> is the log's length plus one). Its calls are the six listed, with no
  \<^verbatim>\<open>DeleteShader\<close> among them, and the shader object it created stays with the driver:
  the driver holds one shader object more than before the call.
\<close>

theorem compileShader_failure:
  assumes "compile_status e s = gl_FALSE"
      and "0 \<le> sint (shader_log_length e s)" and "sint (shader_log_length e s) < 2147483647"
      and "s = object_name e (created w)"
  shows "\<exists>w'. compileShader e src ty w =
            Inr ((0, Some (''couldn't compile shader: '' @ log_buffer (shader_log e s) (shader_log_length e s))), w') \<and>
          shaders w' = shaders w @ [s] \<and> flagged w' = flagged w \<and>
          trace w' = trace w @ [CreateShader ty, ShaderSource s src, CompileShader s,
                                GetShaderiv s COMPILE_STATUS, GetShaderiv s INFO_LOG_LENGTH,
                                GetShaderInfoLog s (shader_log_length e s)] \<and>
          (sint (shader_log_length e s) = int (length (shader_log e s)) + 1 \<longrightarrow>
             log_buffer (shader_log e s) (shader_log_length e s) = shader_log e s @ [NUL, NUL])"
proof -
  have pos: "0 < sint (shader_log_length e s + 1)"
    using sint_succ_in_range[OF assms(2,3)] assms(2) by simp
  then show ?thesis
    using assms(1,4) log_buffer_exact[OF pos] by (simp add: compileShader_eq Let_def)
qed

theorem compileShader_failure_witness:
  "compile_status (sample_env gl_FALSE 1) 1 = gl_FALSE \<and>
   returned (compileShader (sample_env gl_FALSE 1) fragmentShaderSrc FRAGMENT_SHADER (initial_world :: unit world))
     = Some (0, Some (''couldn't compile shader: bad'' @ [NUL, NUL])) \<and>
   map_option shaders (world_after
     (compileShader (sample_env gl_FALSE 1) fragmentShaderSrc FRAGMENT_SHADER (initial_world :: unit world))) = Some [1]"
  using compileShader_failure [of "sample_env gl_FALSE 1" 1 "initial_world :: unit world"
      fragmentShaderSrc FRAGMENT_SHADER]
  by (auto simp: sample_env_simps initial_world_simps returned_def world_after_def log_buffer_bad)

subsection \<open>The link step\<close>

text \<open>
  Both shaders compile and the link fails. \<^verbatim>\<open>createProgram\<close> returns handle 0 and the
  error, and leaves the driver holding both shader objects, still attached to the
  program object, and the program object itself.
\<close>

theorem link_failure_leaves_objects_counterexample:
  "returned (createProgram (sample_env 1 gl_FALSE) vertexShaderSrc fragmentShaderSrc initial_world)
     = Some (0, Some (''couldn't link shaders: mismatch'' @ [NUL, NUL])) \<and>
   map_option shaders (world_after
     (createProgram (sample_env 1 gl_FALSE) vertexShaderSrc fragmentShaderSrc initial_world)) = Some [1, 2] \<and>
   map_option attached (world_after
     (createProgram (sample_env 1 gl_FALSE) vertexShaderSrc fragmentShaderSrc initial_world)) = Some [(3, 1), (3, 2)] \<and>
   map_option programs (world_after
     (createProgram (sample_env 1 gl_FALSE) vertexShaderSrc fragmentShaderSrc initial_world)) = Some [3]"
  by (simp add: createProgram_compiled link_step_eq sample_env_simps log_buffer_mismatch returned_def
      world_after_def initial_world_def Let_def gl_FALSE_def)

text \<open>
  C2, as the code has it. When both shaders compile, \<^verbatim>\<open>createProgram\<close> (either version)
  creates the program object, attaches both shaders, links, and calls \<^verbatim>\<open>DeleteShader\<close> on
  both right after \<^verbatim>\<open>LinkProgram\<close>, whether the link succeeded or not. It never detaches
  them, so the driver only flags them and they stay attached to the program object. On a
  link failure the program object is not deleted either; the caller gets handle 0 and
  the error, never the handle of the program that failed to link. On success the
  caller gets the program's handle and no error.
\<close>

theorem createProgram_link_outcome:
  assumes "compile_status e v \<noteq> gl_FALSE" and "compile_status e f \<noteq> gl_FALSE"
      and "link_status e p \<noteq> gl_FALSE \<or>
           (0 \<le> sint (program_log_length e p) \<and> sint (program_log_length e p) < 2147483647)"
      and "v = object_name e (created w)" and "f = object_name e (Suc (created w))"
      and "p = object_name e (Suc (Suc (created w)))"
  shows "\<exists>w'. createProgram e vs fs w =
            Inr ((if link_status e p = gl_FALSE
                  then (0, Some (''couldn't link shaders: '' @
                                 log_buffer (program_log e p) (program_log_length e p)))
                  else (p, None)), w') \<and>
          createProgram_two_triangles e vs fs w = createProgram e vs fs w \<and>
          trace w' = trace w @
            [CreateShader VERTEX_SHADER, ShaderSource v vs, CompileShader v, GetShaderiv v COMPILE_STATUS,
             CreateShader FRAGMENT_SHADER, ShaderSource f fs, CompileShader f, GetShaderiv f COMPILE_STATUS,
             CreateProgram, AttachShader p v, AttachShader p f, LinkProgram p,
             DeleteShader v, DeleteShader f, GetProgramiv p LINK_STATUS] @
            (if link_status e p = gl_FALSE
             then [GetProgramiv p INFO_LOG_LENGTH, GetProgramInfoLog p (program_log_length e p)]
             else []) \<and>
          shaders w' = shaders w @ [v, f] \<and> flagged w' = flagged w @ [v, f] \<and>
          attached w' = attached w @ [(p, v), (p, f)] \<and> programs w' = programs w @ [p]"
proof (cases "link_status e p = gl_FALSE")
  case True
  then have "0 < sint (program_log_length e p + 1)"
    using assms(3) sint_succ_in_range[of "program_log_length e p"] by auto
  then show ?thesis
    using True assms(1,2,4,5,6)
    by (simp add: createProgram_compiled createProgram_two_triangles_compiled link_step_eq Let_def)
next
  case False
  then show ?thesis
    using assms(1,2,4,5,6)
    by (simp add: createProgram_compiled createProgram_two_triangles_compiled link_step_eq Let_def)
qed

theorem createProgram_link_outcome_witness:
  "compile_status (sample_env 1 gl_FALSE) 1 \<noteq> gl_FALSE \<and>
   link_status (sample_env 1 gl_FALSE) 3 = gl_FALSE \<and>
   returned (createProgram (sample_env 1 gl_FALSE) vertexShaderSrc fragmentShaderSrc (initial_world :: unit world))
     = Some (0, Some (''couldn't link shaders: mismatch'' @ [NUL, NUL])) \<and>
   map_option flagged (world_after
     (createProgram (sample_env 1 gl_FALSE) vertexShaderSrc fragmentShaderSrc (initial_world :: unit world))) = Some [1, 2]"
proof -
  let ?e = "sample_env 1 gl_FALSE"
  have 1: "compile_status ?e 1 \<noteq> gl_FALSE" "compile_status ?e 2 \<noteq> gl_FALSE"
    by (simp_all add: sample_env_simps gl_FALSE_def)
  have 2: "link_status ?e 3 \<noteq> gl_FALSE \<or>
           (0 \<le> sint (program_log_length ?e 3) \<and> sint (program_log_length ?e 3) < 2147483647)"
    by (simp add: sample_env_simps)
  have 3: "1 = object_name ?e (created (initial_world :: unit world))"
    "2 = object_name ?e (Suc (created (initial_world :: unit world)))"
    "3 = object_name ?e (Suc (Suc (created (initial_world :: unit world))))"
    by (simp_all add: sample_env_simps initial_world_simps)
  from createProgram_link_outcome [OF 1 2 3, of vertexShaderSrc fragmentShaderSrc]
  obtain w' :: "unit world" where
    "createProgram ?e vertexShaderSrc fragmentShaderSrc initial_world =
       Inr ((0, Some (''couldn't link shaders: '' @ log_buffer ''mismatch'' 9)), w')"
    "flagged w' = [1, 2]"
    by (auto simp: sample_env_simps initial_world_simps)
  then show ?thesis
    by (simp add: returned_def world_after_def log_buffer_mismatch sample_env_simps gl_FALSE_def)
qed

subsection \<open>Panics inside the builder\<close>

text \<open>
  C3. The driver rejects the vertex shader. \<^verbatim>\<open>createProgram\<close> of the two-triangle program
  panics with the compile error; \<^verbatim>\<open>createProgram\<close> of \<^verbatim>\<open>render.go\<close> and of the
  animated-cubes program, on the same driver, returns it.
\<close>

theorem createProgram_two_triangles_panics:
  "createProgram_two_triangles (sample_env gl_FALSE 1) vertexShaderSrc_two_triangles fragmentShaderSrc
     initial_world = Inl (Panic_error (''couldn't compile shader: bad'' @ [NUL, NUL])) \<and>
   returned (createProgram (sample_env gl_FALSE 1) vertexShaderSrc fragmentShaderSrc initial_world)
     = Some (0, Some (''couldn't compile shader: bad'' @ [NUL, NUL]))"
  by (simp add: createProgram_two_triangles_def createProgram_def compileShader_eq sample_env_simps
      log_buffer_bad returned_def initial_world_def Let_def gl_FALSE_def)

subsection \<open>The shape of the error messages\<close>

lemma compile_error_shape:
  assumes "compileShader e src ty w = Inr ((h, Some msg), w')"
  shows "h = 0 \<and> msg \<noteq> [] \<and> last msg = NUL \<and>
         (\<exists>s. msg = ''couldn't compile shader: '' @ log_buffer (shader_log e s) (shader_log_length e s) \<and>
              int (length msg) = 25 + (sint (shader_log_length e s) + 1) \<and>
              0 \<le> sint (shader_log_length e s))"
proof -
  let ?s = "object_name e (created w)"
  let ?n = "shader_log_length e ?s"
  from assms have pos: "0 < sint (?n + 1)"
    and msg: "msg = ''couldn't compile shader: '' @ log_buffer (shader_log e ?s) ?n"
    and h: "h = 0"
    by (auto simp: compileShader_eq Let_def split: if_splits)
  have n: "sint ?n = sint (?n + 1) - 1" using pos by (intro sint_succ_nonneg) simp
  show ?thesis
    using h msg pos n log_buffer_length[OF pos, of "shader_log e ?s"]
      log_buffer_last[OF pos, of "shader_log e ?s"]
    by (intro conjI exI[of _ ?s]) simp_all
qed

lemma link_error_shape:
  assumes "link_step e v f w = Inr ((h, Some msg), w')"
  shows "h = 0 \<and> msg \<noteq> [] \<and> last msg = NUL \<and>
         (\<exists>p. msg = ''couldn't link shaders: '' @ log_buffer (program_log e p) (program_log_length e p) \<and>
              int (length msg) = 23 + (sint (program_log_length e p) + 1) \<and>
              0 \<le> sint (program_log_length e p))"
proof -
  let ?p = "object_name e (created w)"
  let ?n = "program_log_length e ?p"
  from assms have pos: "0 < sint (?n + 1)"
    and msg: "msg = ''couldn't link shaders: '' @ log_buffer (program_log e ?p) ?n"
    and h: "h = 0"
    by (auto simp: link_step_eq Let_def split: if_splits)
  have n: "sint ?n = sint (?n + 1) - 1" using pos by (intro sint_succ_nonneg) simp
  show ?thesis
    using h msg pos n log_buffer_length[OF pos, of "program_log e ?p"]
      log_buffer_last[OF pos, of "program_log e ?p"]
    by (intro conjI exI[of _ ?p]) simp_all
qed

text \<open>
  C10. An error returned by \<^verbatim>\<open>compileShader\<close> is the prefix
  \<^verbatim>\<open>couldn't compile shader: \<close> (25 bytes) followed by the log buffer of \<open>msgLength + 1\<close>
  bytes; an error returned by \<^verbatim>\<open>createProgram\<close> (either version) is such a compile error or
  the prefix \<^verbatim>\<open>couldn't link shaders: \<close> (23 bytes) followed by the program's log buffer.
  With every returned error the handle is 0, \<open>msgLength\<close> is not negative, and the
  message is not empty and ends in a NUL byte. The error is the message alone: the
  stage that failed can be read from the prefix only.
\<close>

theorem returned_errors_are_prefixed_log_buffers:
  fixes e :: env and w :: "'m world"
  shows
  "(compileShader e src ty w = Inr ((h, Some msg), w') \<longrightarrow>
      h = 0 \<and> msg \<noteq> [] \<and> last msg = NUL \<and>
      (\<exists>s. msg = ''couldn't compile shader: '' @ log_buffer (shader_log e s) (shader_log_length e s) \<and>
           int (length msg) = 25 + (sint (shader_log_length e s) + 1) \<and>
           0 \<le> sint (shader_log_length e s))) \<and>
   ((createProgram e vs fs w = Inr ((h, Some msg), w') \<or>
     createProgram_two_triangles e vs fs w = Inr ((h, Some msg), w')) \<longrightarrow>
      h = 0 \<and> msg \<noteq> [] \<and> last msg = NUL \<and>
      ((\<exists>s. msg = ''couldn't compile shader: '' @ log_buffer (shader_log e s) (shader_log_length e s) \<and>
            int (length msg) = 25 + (sint (shader_log_length e s) + 1) \<and>
            0 \<le> sint (shader_log_length e s)) \<or>
       (\<exists>p. msg = ''couldn't link shaders: '' @ log_buffer (program_log e p) (program_log_length e p) \<and>
            int (length msg) = 23 + (sint (program_log_length e p) + 1) \<and>
            0 \<le> sint (program_log_length e p))))"
proof -
  let ?C = "h = 0 \<and> msg \<noteq> [] \<and> last msg = NUL \<and>
      (\<exists>s. msg = ''couldn't compile shader: '' @ log_buffer (shader_log e s) (shader_log_length e s) \<and>
            int (length msg) = 25 + (sint (shader_log_length e s) + 1) \<and>
            0 \<le> sint (shader_log_length e s))"
  let ?L = "h = 0 \<and> msg \<noteq> [] \<and> last msg = NUL \<and>
       (\<exists>p. msg = ''couldn't link shaders: '' @ log_buffer (program_log e p) (program_log_length e p) \<and>
            int (length msg) = 23 + (sint (program_log_length e p) + 1) \<and>
            0 \<le> sint (program_log_length e p))"
  have compile: "?C" if "compileShader e src ty w = Inr ((h, Some msg), w')"
    using that by (rule compile_error_shape)
  have create: "?C \<or> ?L" if "createProgram e vs fs w = Inr ((h, Some msg), w')"
  proof -
    from that consider
        h1 w1 where "compileShader e vs VERTEX_SHADER w = Inr ((h1, Some msg), w1)" "h = 0"
      | w1 :: "'m world" and h2 w2
          where "compileShader e fs FRAGMENT_SHADER w1 = Inr ((h2, Some msg), w2)" "h = 0"
      | v f and w2 :: "'m world" where "link_step e v f w2 = Inr ((h, Some msg), w')"
      by (auto simp: createProgram_def split: sum.splits option.splits prod.splits)
    then show ?thesis
    proof cases
      case 1 then show ?thesis using compile_error_shape[OF 1(1)] by blast
    next
      case 2 then show ?thesis using compile_error_shape[OF 2(1)] by blast
    next
      case 3 then show ?thesis using link_error_shape[OF 3] by blast
    qed
  qed
  have create2: "?L" if "createProgram_two_triangles e vs fs w = Inr ((h, Some msg), w')"
  proof -
    from that obtain v f and w2 :: "'m world" where "link_step e v f w2 = Inr ((h, Some msg), w')"
      by (auto simp: createProgram_two_triangles_def split: sum.splits option.splits prod.splits)
    then show ?thesis by (rule link_error_shape)
  qed
  show ?thesis using compile create create2 by blast
qed


theorem returned_errors_are_prefixed_log_buffers_witness:
  "returned (compileShader (sample_env gl_FALSE 1) vertexShaderSrc VERTEX_SHADER (initial_world :: unit world))
     = Some (0, Some (''couldn't compile shader: bad'' @ [NUL, NUL])) \<and>
   last (''couldn't compile shader: bad'' @ [NUL, NUL]) = NUL \<and>
   returned (createProgram_two_triangles (sample_env 1 gl_FALSE) vertexShaderSrc_two_triangles
       yellowFragSrc (initial_world :: unit world))
     = Some (0, Some (''couldn't link shaders: mismatch'' @ [NUL, NUL])) \<and>
   last (''couldn't link shaders: mismatch'' @ [NUL, NUL]) = NUL"
proof -
  let ?c = "''couldn't compile shader: bad'' @ [NUL, NUL]"
  let ?l = "''couldn't link shaders: mismatch'' @ [NUL, NUL]"
  obtain w1 :: "unit world" where
    c: "compileShader (sample_env gl_FALSE 1) vertexShaderSrc VERTEX_SHADER initial_world
          = Inr ((0, Some ?c), w1)"
    by (simp add: compileShader_eq sample_env_simps log_buffer_bad Let_def)
  obtain w2 :: "unit world" where
    l: "createProgram_two_triangles (sample_env 1 gl_FALSE) vertexShaderSrc_two_triangles
          yellowFragSrc initial_world = Inr ((0, Some ?l), w2)"
    by (simp add: createProgram_two_triangles_compiled createProgram_compiled link_step_eq
        sample_env_simps log_buffer_mismatch Let_def gl_FALSE_def)
  from c returned_errors_are_prefixed_log_buffers
         [of "sample_env gl_FALSE 1" vertexShaderSrc VERTEX_SHADER initial_world 0 ?c w1]
  have "last ?c = NUL" by blast
  moreover
  from l returned_errors_are_prefixed_log_buffers
         [of "sample_env 1 gl_FALSE" _ _ initial_world 0 ?l w2 vertexShaderSrc_two_triangles yellowFragSrc]
  have "last ?l = NUL" by blast
  ultimately show ?thesis using c l by (simp add: returned_def)
qed

section \<open>Facts about the frames\<close>

lemma check_escape_eq:
  "check_escape w =
     (if escape_key w = Press
      then w\<lparr>should_close := True, trace := trace w @ [GetKey_Escape, SetShouldClose True]\<rparr>
      else w\<lparr>trace := trace w @ [GetKey_Escape]\<rparr>)"
  by (simp add: check_escape_def window_GetKey_Escape_def window_SetShouldClose_def emit_def)

lemma present_eq:
  "present e w =
     w\<lparr>escape_key := escape_after_poll e (polls w),
       should_close := (should_close w \<or> close_request_at_poll e (polls w)),
       polls := Suc (polls w),
       trace := trace w @ [SwapBuffers, PollEvents]\<rparr>"
  by (simp add: present_def glfw_PollEvents_def emit_def)

lemma draw_cubes_from:
  "i \<le> 10 \<Longrightarrow>
   draw_cubes lib fu e ml i w =
     w\<lparr>time_reads := time_reads w + (10 - i),
       trace := trace w @
         concat (map (\<lambda>j. instance_calls lib fu e ml j (time_reads w + (j - i))) [i..<10])\<rparr>"
proof (induction lib fu e ml i w rule: draw_cubes.induct)
  case (1 lib fu e ml i w)
  show ?case
  proof (cases "i < 10")
    case True
    let ?w3 = "emit (DrawArrays_TRIANGLES 0 36)
                 (emit (UniformMatrix4fv ml (model_matrix lib fu i (clock e (time_reads w))))
                    (emit GetTime (w\<lparr>time_reads := Suc (time_reads w)\<rparr>)))"
    have step: "draw_cubes lib fu e ml i w = draw_cubes lib fu e ml (Suc i) ?w3"
      using True by (subst draw_cubes.simps) (simp add: glfw_GetTime_def Let_def)
    have IH: "draw_cubes lib fu e ml (Suc i) ?w3 =
        ?w3\<lparr>time_reads := time_reads ?w3 + (10 - Suc i),
             trace := trace ?w3 @
               concat (map (\<lambda>j. instance_calls lib fu e ml j (time_reads ?w3 + (j - Suc i))) [Suc i..<10])\<rparr>"
      using True by (intro "1.IH"[OF True]) (simp_all add: glfw_GetTime_def)
    have up: "[i..<10] = i # [Suc i..<10]" using True by (simp add: upt_conv_Cons)
    have m: "map (\<lambda>j. instance_calls lib fu e ml j (time_reads ?w3 + (j - Suc i))) [Suc i..<10]
           = map (\<lambda>j. instance_calls lib fu e ml j (time_reads w + (j - i))) [Suc i..<10]"
    proof (rule map_cong[OF refl])
      fix j assume "j \<in> set [Suc i..<10]"
      then have j: "Suc i \<le> j" by simp
      have "time_reads ?w3 = Suc (time_reads w)" by (simp add: emit_def)
      then have "time_reads ?w3 + (j - Suc i) = time_reads w + (j - i)" using j by arith
      then show "instance_calls lib fu e ml j (time_reads ?w3 + (j - Suc i))
                 = instance_calls lib fu e ml j (time_reads w + (j - i))"
        by (simp only:)
    qed
    show ?thesis
      unfolding step IH m up using True
      by (simp add: emit_def instance_calls_def)
  next
    case False
    with "1.prems" have "i = 10" by simp
    then show ?thesis by (subst draw_cubes.simps) simp
  qed
qed

lemma draw_cubes_eq:
  "draw_cubes lib fu e ml 0 w =
     w\<lparr>time_reads := time_reads w + 10,
       trace := trace w @
         concat (map (\<lambda>i. instance_calls lib fu e ml i (time_reads w + i)) [0..<10])\<rparr>"
  using draw_cubes_from[of 0 lib fu e ml w] by simp

lemma f32_program_constants:
  "f32 (- 3) = - 3" "f32 45 = 45" "f32 100 = 100" "f32 (- 55) = - 55"
  using f32_int[of "- 3"] f32_int[of 45] f32_int[of 100] f32_int[of "- 55"] by simp_all

lemma frame_cubes_trace:
  "trace (frame_cubes lib fu e VAO p ml vl pl w) =
     trace w @ GetKey_Escape # (if escape_key w = Press then [SetShouldClose True] else []) @
     [ClearColor 0 0 0 1, Clear True True, BindVertexArray VAO, UseProgram p,
      UniformMatrix4fv vl (Mul4 lib (Ident4 lib) (Translate3D lib 0 0 (- 3))),
      UniformMatrix4fv pl (Mul4 lib (Ident4 lib)
                            (Perspective lib (DegToRad 45) (5 / 4) (f32 (1 / 10)) 100))] @
     concat (map (\<lambda>i. instance_calls lib fu e ml i (time_reads w + i)) [0..<10]) @
     [SwapBuffers, PollEvents]"
  by (simp add: frame_cubes_def check_escape_eq present_eq draw_cubes_eq emit_def Let_def
      f32_0 f32_numeral_simps f32_program_constants f32_simple_values)

lemma frame_cubes_should_close:
  "should_close (frame_cubes lib fu e VAO p ml vl pl w) =
     (should_close w \<or> escape_key w = Press \<or> close_request_at_poll e (polls w))"
  by (auto simp add: frame_cubes_def check_escape_eq present_eq draw_cubes_eq emit_def Let_def)

lemma frame_render_trace:
  "trace (frame_render lib e VAO p ml vl pl w) =
     trace w @ GetKey_Escape # (if escape_key w = Press then [SetShouldClose True] else []) @
     [ClearColor 0 1 0 1, Clear True False, BindVertexArray VAO, UseProgram p,
      UniformMatrix4fv ml (HomogRotate3D lib (DegToRad (- 55)) (1, 0, 0)),
      UniformMatrix4fv vl (Translate3D lib 0 0 (- 3)),
      UniformMatrix4fv pl (Perspective lib (DegToRad 45) (5 / 4) (f32 (1 / 10)) 100),
      DrawElements_TRIANGLES 6 0, SwapBuffers, PollEvents]"
  by (simp add: frame_render_def check_escape_eq present_eq emit_def Let_def
      f32_0 f32_numeral_simps f32_program_constants f32_simple_values)

lemma frame_render_should_close:
  "should_close (frame_render lib e VAO p ml vl pl w) =
     (should_close w \<or> escape_key w = Press \<or> close_request_at_poll e (polls w))"
  by (auto simp add: frame_render_def check_escape_eq present_eq emit_def Let_def)

lemma frame_two_triangles_trace:
  "trace (frame_two_triangles e VAO red yellow w) =
     trace w @ GetKey_Escape # (if escape_key w = Press then [SetShouldClose True] else []) @
     [ClearColor 0 1 0 1, Clear True False, BindVertexArray VAO, UseProgram red,
      DrawElements_TRIANGLES 3 0, UseProgram yellow, DrawElements_TRIANGLES 3 12,
      SwapBuffers, PollEvents]"
  by (simp add: frame_two_triangles_def check_escape_eq present_eq emit_def Let_def
      f32_0 f32_numeral_simps)

lemma frame_two_triangles_should_close:
  "should_close (frame_two_triangles e VAO red yellow w) =
     (should_close w \<or> escape_key w = Press \<or> close_request_at_poll e (polls w))"
  by (auto simp add: frame_two_triangles_def check_escape_eq present_eq emit_def Let_def)

lemma frame_loop_last_frame:
  assumes "\<not> should_close w" and "should_close (body (emit ShouldClose w))"
  shows "frame_loop (Suc fuel) body w = Some (emit ShouldClose (body (emit ShouldClose w)))"
  using assms by (cases fuel) (simp_all add: window_ShouldClose_def emit_def)

lemma shutdown_trace:
  "trace (shutdown VAO VBO EBO w) =
     trace w @ [DeleteVertexArrays VAO, DeleteBuffers VBO, DeleteBuffers EBO, Terminate]"
  by (simp add: shutdown_def emit_def)

lemma uploads_to_simps:
  "uploads_to loc [] = []"
  "uploads_to loc (c # cs) = upload_to loc c @ uploads_to loc cs"
  "uploads_to loc (cs @ ds) = uploads_to loc cs @ uploads_to loc ds"
  by (simp_all add: uploads_to_def)

lemma uploads_to_instances:
  "uploads_to loc (concat (map (\<lambda>i. instance_calls lib fu e ml i (k + i)) xs)) =
     (if loc = ml then map (\<lambda>i. model_matrix lib fu i (clock e (k + i))) xs else [])"
  by (induction xs) (simp_all add: uploads_to_simps instance_calls_def upload_to_def)

lemma draws_of_instances:
  "filter is_draw (concat (map (\<lambda>i. instance_calls lib fu e ml i (k + i)) xs)) =
     map (\<lambda>i. DrawArrays_TRIANGLES 0 36) xs"
  by (induction xs) (simp_all add: instance_calls_def is_draw_def)

lemma calls_between_append: "trace w' = trace w @ cs \<Longrightarrow> calls_between w w' = cs"
  by (simp add: calls_between_def)

lemma f32_two_triangle_values:
  "f32 (- (1 / 2)) = - (1 / 2)"
  using f32_dyadic[of "- 1" 1] by simp

lemma vertices_two_triangles_eq:
  "vertices_two_triangles =
     [1 / 2, 1 / 2, 0,  1 / 2, - (1 / 2), 0,  - (1 / 2), - (1 / 2), 0,  1, - (1 / 2), 0]"
  by (simp add: vertices_two_triangles_def f32_simple_values f32_two_triangle_values f32_0
      f32_numeral_simps)

lemma frame_cubes_calls:
  "calls_between w (frame_cubes lib fu e VAO p ml vl pl w) =
     GetKey_Escape # (if escape_key w = Press then [SetShouldClose True] else []) @
     [ClearColor 0 0 0 1, Clear True True, BindVertexArray VAO, UseProgram p,
      UniformMatrix4fv vl (Mul4 lib (Ident4 lib) (Translate3D lib 0 0 (- 3))),
      UniformMatrix4fv pl (Mul4 lib (Ident4 lib)
                            (Perspective lib (DegToRad 45) (5 / 4) (f32 (1 / 10)) 100))] @
     concat (map (\<lambda>i. instance_calls lib fu e ml i (time_reads w + i)) [0..<10]) @
     [SwapBuffers, PollEvents]"
  by (rule calls_between_append) (simp add: frame_cubes_trace)

lemma frame_render_calls:
  "calls_between w (frame_render lib e VAO p ml vl pl w) =
     GetKey_Escape # (if escape_key w = Press then [SetShouldClose True] else []) @
     [ClearColor 0 1 0 1, Clear True False, BindVertexArray VAO, UseProgram p,
      UniformMatrix4fv ml (HomogRotate3D lib (DegToRad (- 55)) (1, 0, 0)),
      UniformMatrix4fv vl (Translate3D lib 0 0 (- 3)),
      UniformMatrix4fv pl (Perspective lib (DegToRad 45) (5 / 4) (f32 (1 / 10)) 100),
      DrawElements_TRIANGLES 6 0, SwapBuffers, PollEvents]"
  by (rule calls_between_append) (simp add: frame_render_trace)

lemma instance_calls_eq:
  "instance_calls lib fu e ml i k =
     [GetTime,
      UniformMatrix4fv ml
        (Mul4 lib (Mul4 lib (Ident4 lib)
                     (case cubePositions ! i of (x, y, z) \<Rightarrow> Translate3D lib x y z))
           (HomogRotate3D lib (DegToRad (rotation_angle fu i (clock e k)))
              (Vec3_Normalize (1 / 2, 1, 0)))),
      DrawArrays_TRIANGLES 0 36]"
  by (simp add: instance_calls_def model_matrix_def Let_def f32_simple_values f32_numeral_simps f32_0)

lemma model_matrix_eq:
  "model_matrix lib fu i t =
     Mul4 lib (Mul4 lib (Ident4 lib)
                 (case cubePositions ! i of (x, y, z) \<Rightarrow> Translate3D lib x y z))
       (HomogRotate3D lib (DegToRad (rotation_angle fu i t)) (Vec3_Normalize (1 / 2, 1, 0)))"
  by (simp add: model_matrix_def Let_def f32_simple_values f32_numeral_simps f32_0)

lemma draw_cubes_calls:
  "calls_between w (draw_cubes lib fu e ml 0 w) =
     concat (map (\<lambda>i. [GetTime, UniformMatrix4fv ml (model_matrix lib fu i (clock e (time_reads w + i))),
                        DrawArrays_TRIANGLES 0 36]) [0..<10])"
  by (rule calls_between_append) (simp add: draw_cubes_eq instance_calls_def)

lemma free_mgl32_simps:
  "Ident4 free_mgl32 = Mat_Ident" "Mul4 free_mgl32 = Mat_Mul"
  "Translate3D free_mgl32 = Mat_Translate" "HomogRotate3D free_mgl32 = Mat_Rotate"
  "Perspective free_mgl32 = Mat_Perspective"
  by (simp_all add: free_mgl32_def)

lemma emit_fields:
  "should_close (emit c w) = should_close w" "escape_key (emit c w) = escape_key w"
  "polls (emit c w) = polls w" "time_reads (emit c w) = time_reads w"
  "trace (emit c w) = trace w @ [c]"
  by (simp_all add: emit_def)

lemma calls_between_emit:
  "trace w' = trace w @ cs \<Longrightarrow> calls_between w (emit c w') = cs @ [c]"
  by (simp add: calls_between_def emit_def)

lemma frame_render_eq:
  "frame_render lib e VAO p ml vl pl w =
     w\<lparr>should_close := (should_close w \<or> escape_key w = Press \<or> close_request_at_poll e (polls w)),
       escape_key := escape_after_poll e (polls w),
       polls := Suc (polls w),
       trace := trace w @ GetKey_Escape # (if escape_key w = Press then [SetShouldClose True] else []) @
         [ClearColor 0 1 0 1, Clear True False, BindVertexArray VAO, UseProgram p,
          UniformMatrix4fv ml (HomogRotate3D lib (DegToRad (- 55)) (1, 0, 0)),
          UniformMatrix4fv vl (Translate3D lib 0 0 (- 3)),
          UniformMatrix4fv pl (Perspective lib (DegToRad 45) (5 / 4) (f32 (1 / 10)) 100),
          DrawElements_TRIANGLES 6 0, SwapBuffers, PollEvents]\<rparr>"
  by (simp add: frame_render_def check_escape_eq present_eq emit_def Let_def
      f32_0 f32_numeral_simps f32_program_constants f32_simple_values)

lemma sample_env_more:
  "uniform_location (sample_env cs ls) p name =
     (if name = ''model'' @ [NUL] then 0 else if name = ''view'' @ [NUL] then 1
      else if name = ''projection'' @ [NUL] then 2 else - 1)"
  "glfw_init_error (sample_env cs ls) = None" "create_window_error (sample_env cs ls) = None"
  "gl_init_error (sample_env cs ls) = None"
  "escape_after_poll (sample_env cs ls) k = (if k < 2 then Release else Press)"
  "close_request_at_poll (sample_env cs ls) k = False"
  "clock (sample_env cs ls) k = real k / 64"
  by (simp_all add: sample_env_def)

lemma run_render:
  "map_option (map_sum id (\<lambda>w. filter is_draw (trace w))) (main_render free_mgl32 (sample_env 1 1) 4)
     = Some (Inr (replicate 4 (DrawElements_TRIANGLES 6 0)))"
  by (simp add: main_render_def startup_def createProgram_compiled link_step_eq upload_quad_def
      gl_GenVertexArrays_def gl_GenBuffers_def gl_GetUniformLocation_def frame_render_eq
      window_ShouldClose_def shutdown_def
      sample_env_simps sample_env_more initial_world_def emit_def Let_def gl_FALSE_def
      is_draw_def NUL_def eval_nat_numeral)

lemma run_render_short:
  "main_render free_mgl32 (sample_env 1 1) 3 = None"
  by (simp add: main_render_def startup_def createProgram_compiled link_step_eq upload_quad_def
      gl_GenVertexArrays_def gl_GenBuffers_def gl_GetUniformLocation_def frame_render_eq
      window_ShouldClose_def shutdown_def
      sample_env_simps sample_env_more initial_world_def emit_def Let_def gl_FALSE_def
      NUL_def eval_nat_numeral)

subsection \<open>The two triangles\<close>

text \<open>
  The index buffer of the two-triangle program is \<open>{0,1,2, 0,1,3}\<close>, not
  \<open>{0,1,2, 0,2,3}\<close>, and three of its four positions lie on the line \<open>y = -1/2\<close>, so
  they are not the corners of a quad. \<^verbatim>\<open>render.go\<close> has the quad and the index buffer
  \<open>{0,1,2, 0,2,3}\<close>, and draws them with one call of six indices.
\<close>

theorem two_triangles_not_the_quad_counterexample:
  "indices_two_triangles = [0, 1, 2, 0, 1, 3] \<and>
   indices_two_triangles \<noteq> [0, 1, 2, 0, 2, 3] \<and>
   fetch_position vertices_two_triangles 1 = [1 / 2, - (1 / 2), 0] \<and>
   fetch_position vertices_two_triangles 2 = [- (1 / 2), - (1 / 2), 0] \<and>
   fetch_position vertices_two_triangles 3 = [1, - (1 / 2), 0] \<and>
   indices = [0, 1, 2, 0, 2, 3] \<and>
   filter is_draw (calls_between (initial_world :: mat4 world)
      (frame_render free_mgl32 (sample_env 1 1) 4 3 0 1 2 initial_world)) =
     [DrawElements_TRIANGLES 6 0]"
  by (simp add: indices_two_triangles_def vertices_two_triangles_eq fetch_position_def indices_def
      frame_render_calls is_draw_def initial_world_simps)

text \<open>
  C4, as the code has it. In the two-triangle program the vertex buffer holds the four
  positions top right, bottom right, bottom left and further bottom right, the index
  buffer is \<open>{0,1,2, 0,1,3}\<close>, and every frame makes exactly two indexed draw calls of
  three indices each, the first reading the indices from byte 0 (the triangle 0, 1, 2)
  and the second from byte 12 of the same buffer (the triangle 0, 1, 3); the frame
  uploads no vertex or index data.
\<close>

theorem two_triangles_frame:
  "length vertices_two_triangles = 4 * 3 \<and>
   map (fetch_position vertices_two_triangles) [0, 1, 2, 3] =
     [[1 / 2, 1 / 2, 0], [1 / 2, - (1 / 2), 0], [- (1 / 2), - (1 / 2), 0], [1, - (1 / 2), 0]] \<and>
   indices_two_triangles = [0, 1, 2, 0, 1, 3] \<and>
   calls_between w (frame_two_triangles e VAO red yellow w) =
     GetKey_Escape # (if escape_key w = Press then [SetShouldClose True] else []) @
     [ClearColor 0 1 0 1, Clear True False, BindVertexArray VAO, UseProgram red,
      DrawElements_TRIANGLES 3 0, UseProgram yellow, DrawElements_TRIANGLES 3 12,
      SwapBuffers, PollEvents] \<and>
   fetch_indices indices_two_triangles 3 0 = [0, 1, 2] \<and>
   fetch_indices indices_two_triangles 3 12 = [0, 1, 3]"
proof -
  have "calls_between w (frame_two_triangles e VAO red yellow w) =
     GetKey_Escape # (if escape_key w = Press then [SetShouldClose True] else []) @
     [ClearColor 0 1 0 1, Clear True False, BindVertexArray VAO, UseProgram red,
      DrawElements_TRIANGLES 3 0, UseProgram yellow, DrawElements_TRIANGLES 3 12,
      SwapBuffers, PollEvents]"
    by (rule calls_between_append) (simp add: frame_two_triangles_trace)
  moreover have "map (fetch_position vertices_two_triangles) [0, 1, 2, 3] =
     [[1 / 2, 1 / 2, 0], [1 / 2, - (1 / 2), 0], [- (1 / 2), - (1 / 2), 0], [1, - (1 / 2), 0]]"
    by (simp add: vertices_two_triangles_eq fetch_position_def)
  moreover have "length vertices_two_triangles = 4 * 3"
    by (simp add: vertices_two_triangles_eq)
  moreover have "fetch_indices indices_two_triangles 3 0 = [0, 1, 2]"
    "fetch_indices indices_two_triangles 3 12 = [0, 1, 3]"
    by (simp_all add: indices_two_triangles_def fetch_indices_def)
  ultimately show ?thesis by (simp add: indices_two_triangles_def)
qed

theorem two_triangles_frame_witness:
  "calls_between (initial_world :: unit world)
     (frame_two_triangles (sample_env 1 1) 7 3 6 initial_world) =
     [GetKey_Escape, ClearColor 0 1 0 1, Clear True False, BindVertexArray 7, UseProgram 3,
      DrawElements_TRIANGLES 3 0, UseProgram 6, DrawElements_TRIANGLES 3 12,
      SwapBuffers, PollEvents]"
  using two_triangles_frame [of "initial_world :: unit world" "sample_env 1 1" 7 3 6]
  by (simp add: initial_world_simps)

subsection \<open>The rotation angle\<close>



subsection \<open>The model matrix\<close>

text \<open>
  C6. For every instance \<open>i\<close> of the animated-cubes program the model matrix, which the
  loop over the instances uploads before the instance's draw call, is
  the product of the translation by \<open>cubePositions[i]\<close> (after the identity) and the
  rotation; the rotation gets the angle through \<^verbatim>\<open>DegToRad\<close> and the axis
  \<open>(0.5, 1, 0)\<close> through \<^verbatim>\<open>Normalize\<close>. The normalised axis is not zero and its length
  is within \<open>10\<^sup>-\<^sup>6\<close> of 1. In \<^verbatim>\<open>render.go\<close> the model matrix is the rotation alone, by
  \<^verbatim>\<open>DegToRad(-55)\<close> about \<open>(1, 0, 0)\<close>, whose length is 1. \<^verbatim>\<open>DegToRad\<close> of an angle
  \<open>a\<close> in degrees is \<open>a * pi / 180\<close> up to a relative error of \<open>2\<^sup>-\<^sup>2\<^sup>2\<close>.
\<close>

theorem model_matrix_is_translation_then_rotation:
  "model_matrix lib fu i t =
     Mul4 lib (Mul4 lib (Ident4 lib)
                 (case cubePositions ! i of (x, y, z) \<Rightarrow> Translate3D lib x y z))
       (HomogRotate3D lib (DegToRad (rotation_angle fu i t)) (Vec3_Normalize (1 / 2, 1, 0))) \<and>
   calls_between w (draw_cubes lib fu e ml 0 w) =
     concat (map (\<lambda>j. [GetTime,
                        UniformMatrix4fv ml (model_matrix lib fu j (clock e (time_reads w + j))),
                        DrawArrays_TRIANGLES 0 36]) [0..<10]) \<and>
   \<bar>norm3 (Vec3_Normalize (1 / 2, 1, 0)) - 1\<bar> \<le> 1 / 1000000 \<and>
   Vec3_Normalize (1 / 2, 1, 0) \<noteq> (0, 0, 0) \<and>
   calls_between w (frame_render lib e VAO p ml vl pl w) =
     GetKey_Escape # (if escape_key w = Press then [SetShouldClose True] else []) @
     [ClearColor 0 1 0 1, Clear True False, BindVertexArray VAO, UseProgram p,
      UniformMatrix4fv ml (HomogRotate3D lib (DegToRad (- 55)) (1, 0, 0)),
      UniformMatrix4fv vl (Translate3D lib 0 0 (- 3)),
      UniformMatrix4fv pl (Perspective lib (DegToRad 45) (5 / 4) (f32 (1 / 10)) 100),
      DrawElements_TRIANGLES 6 0, SwapBuffers, PollEvents] \<and>
   norm3 (1, 0, 0) = 1 \<and>
   \<bar>DegToRad a - a * pi / 180\<bar> \<le> \<bar>a * pi / 180\<bar> / 4194304"
  using model_matrix_eq[of lib fu i t] draw_cubes_calls[of w lib fu e ml]
    frame_render_calls[of w lib e VAO p ml vl pl]
    axis_norm axis_nonzero DegToRad_error[of a]
  unfolding axis_value by (simp add: norm3_def)

theorem model_matrix_is_translation_then_rotation_witness:
  "model_matrix free_mgl32 Unfused 1 (11 / 64) =
     Mat_Mul (Mat_Mul Mat_Ident (Mat_Translate 2 5 (- 15)))
       (Mat_Rotate (DegToRad (rotation_angle Unfused 1 (11 / 64))) (Vec3_Normalize (1 / 2, 1, 0))) \<and>
   \<bar>DegToRad 180 - pi\<bar> \<le> pi / 4194304"
proof -
  have "f32 2 = 2" "f32 5 = 5" "f32 (- 15) = - 15"
    using f32_int[of 2] f32_int[of 5] f32_int[of "- 15"] by simp_all
  then have c: "cubePositions ! 1 = (2, 5, - 15)" by (simp add: cubePositions_def)
  note t = model_matrix_is_translation_then_rotation
      [of free_mgl32 Unfused 1 "11 / 64" "initial_world :: mat4 world" "sample_env 1 1" 0 4 3 1 2 180]
  from t have
    "model_matrix free_mgl32 Unfused 1 (11 / 64) =
       Mul4 free_mgl32 (Mul4 free_mgl32 (Ident4 free_mgl32)
                 (case cubePositions ! 1 of (x, y, z) \<Rightarrow> Translate3D free_mgl32 x y z))
         (HomogRotate3D free_mgl32 (DegToRad (rotation_angle Unfused 1 (11 / 64)))
            (Vec3_Normalize (1 / 2, 1, 0)))"
    "\<bar>DegToRad 180 - 180 * pi / 180\<bar> \<le> \<bar>180 * pi / 180\<bar> / 4194304"
    by blast+
  then show ?thesis using c by (simp add: free_mgl32_simps)
qed

subsection \<open>View and projection\<close>

text \<open>
  C7. With three different uniform locations, a frame of the animated-cubes program
  uploads to the view location exactly one matrix, the translation by \<open>(0, 0, -3)\<close>, and
  to the projection location exactly one matrix, the perspective matrix of
  \<^verbatim>\<open>DegToRad(45)\<close>, \<open>800/640 = 5/4\<close>, \<^verbatim>\<open>float32(0.1)\<close> and 100; both uploads stand before the
  calls of the ten instances, and each instance reads the time, uploads its model matrix
  and draws, so that between two draw calls of a frame only the model uniform is set.
  A frame of \<^verbatim>\<open>render.go\<close> uploads the same view and projection once each, before its one
  draw call. \<^verbatim>\<open>DegToRad(45)\<close> is \<open>pi / 4\<close> and \<^verbatim>\<open>float32(0.1)\<close> is \<open>1/10\<close>, up to rounding.
\<close>

theorem view_and_projection_once_per_frame:
  assumes "vl \<noteq> ml" and "pl \<noteq> ml" and "vl \<noteq> pl"
  shows
  "calls_between w (frame_cubes lib fu e VAO p ml vl pl w) =
     GetKey_Escape # (if escape_key w = Press then [SetShouldClose True] else []) @
     [ClearColor 0 0 0 1, Clear True True, BindVertexArray VAO, UseProgram p,
      UniformMatrix4fv vl (Mul4 lib (Ident4 lib) (Translate3D lib 0 0 (- 3))),
      UniformMatrix4fv pl (Mul4 lib (Ident4 lib)
                            (Perspective lib (DegToRad 45) (5 / 4) (f32 (1 / 10)) 100))] @
     concat (map (\<lambda>i. instance_calls lib fu e ml i (time_reads w + i)) [0..<10]) @
     [SwapBuffers, PollEvents] \<and>
   uploads_to vl (calls_between w (frame_cubes lib fu e VAO p ml vl pl w)) =
     [Mul4 lib (Ident4 lib) (Translate3D lib 0 0 (- 3))] \<and>
   uploads_to pl (calls_between w (frame_cubes lib fu e VAO p ml vl pl w)) =
     [Mul4 lib (Ident4 lib) (Perspective lib (DegToRad 45) (5 / 4) (f32 (1 / 10)) 100)] \<and>
   uploads_to ml (calls_between w (frame_cubes lib fu e VAO p ml vl pl w)) =
     map (\<lambda>i. model_matrix lib fu i (clock e (time_reads w + i))) [0..<10] \<and>
   calls_between w (frame_render lib e VAO p ml vl pl w) =
     GetKey_Escape # (if escape_key w = Press then [SetShouldClose True] else []) @
     [ClearColor 0 1 0 1, Clear True False, BindVertexArray VAO, UseProgram p,
      UniformMatrix4fv ml (HomogRotate3D lib (DegToRad (- 55)) (1, 0, 0)),
      UniformMatrix4fv vl (Translate3D lib 0 0 (- 3)),
      UniformMatrix4fv pl (Perspective lib (DegToRad 45) (5 / 4) (f32 (1 / 10)) 100),
      DrawElements_TRIANGLES 6 0, SwapBuffers, PollEvents] \<and>
   \<bar>DegToRad 45 - pi / 4\<bar> \<le> (pi / 4) / 4194304 \<and>
   \<bar>f32 (1 / 10) - 1 / 10\<bar> \<le> (1 / 10) / 16777216"
proof -
  have d: "\<bar>DegToRad 45 - pi / 4\<bar> \<le> (pi / 4) / 4194304"
    using DegToRad_error[of 45] by simp
  have n: "\<bar>f32 (1 / 10) - 1 / 10\<bar> \<le> (1 / 10) / 16777216"
    using f32_error[of "1 / 10"] by simp
  show ?thesis
    unfolding frame_cubes_calls frame_render_calls
    using assms d n
    by (simp add: uploads_to_simps uploads_to_instances upload_to_def)
qed

theorem view_and_projection_once_per_frame_witness:
  "(1 :: int32) \<noteq> 0 \<and> (2 :: int32) \<noteq> 0 \<and> (1 :: int32) \<noteq> 2 \<and>
   uploads_to 1 (calls_between (initial_world :: mat4 world)
      (frame_cubes free_mgl32 Unfused (sample_env 1 1) 4 3 0 1 2 initial_world))
     = [Mat_Mul Mat_Ident (Mat_Translate 0 0 (- 3))] \<and>
   uploads_to 2 (calls_between (initial_world :: mat4 world)
      (frame_cubes free_mgl32 Unfused (sample_env 1 1) 4 3 0 1 2 initial_world))
     = [Mat_Mul Mat_Ident (Mat_Perspective (DegToRad 45) (5 / 4) (f32 (1 / 10)) 100)]"
proof -
  have h: "(1 :: int32) \<noteq> 0" "(2 :: int32) \<noteq> 0" "(1 :: int32) \<noteq> 2" by simp_all
  note t = view_and_projection_once_per_frame
    [OF h, of "initial_world :: mat4 world" free_mgl32 Unfused "sample_env 1 1" 4 3]
  from t have
    "uploads_to 1 (calls_between (initial_world :: mat4 world)
        (frame_cubes free_mgl32 Unfused (sample_env 1 1) 4 3 0 1 2 initial_world))
       = [Mul4 free_mgl32 (Ident4 free_mgl32) (Translate3D free_mgl32 0 0 (- 3))]"
    "uploads_to 2 (calls_between (initial_world :: mat4 world)
        (frame_cubes free_mgl32 Unfused (sample_env 1 1) 4 3 0 1 2 initial_world))
       = [Mul4 free_mgl32 (Ident4 free_mgl32)
            (Perspective free_mgl32 (DegToRad 45) (5 / 4) (f32 (1 / 10)) 100)]"
    by blast+
  then show ?thesis using h by (simp add: free_mgl32_simps)
qed

subsection \<open>The Escape key\<close>

text \<open>
  C8. The loop is at its head with the window open and the Escape key down. Then the
  loop needs one frame of fuel and no more: it returns with the should-close flag set,
  and the calls from there to the end of \<^verbatim>\<open>main\<close> are the check of the flag, the frame in
  full (the key is read, \<^verbatim>\<open>SetShouldClose(true)\<close>, the frame's draw calls,
  \<^verbatim>\<open>SwapBuffers\<close>, \<^verbatim>\<open>PollEvents\<close>), the check of the flag that ends the loop, and the four
  calls that release the buffers and end GLFW: no draw call comes after the swap. This
  holds for the three programs.
\<close>

theorem escape_ends_loop_after_the_frame:
  assumes "\<not> should_close w" and "escape_key w = Press"
  shows
  "(\<exists>w'. frame_loop (Suc fuel) (frame_render lib e VAO p ml vl pl) w = Some w' \<and>
         should_close w' \<and>
         calls_between w (shutdown VAO VBO EBO w') =
           [ShouldClose, GetKey_Escape, SetShouldClose True,
            ClearColor 0 1 0 1, Clear True False, BindVertexArray VAO, UseProgram p,
            UniformMatrix4fv ml (HomogRotate3D lib (DegToRad (- 55)) (1, 0, 0)),
            UniformMatrix4fv vl (Translate3D lib 0 0 (- 3)),
            UniformMatrix4fv pl (Perspective lib (DegToRad 45) (5 / 4) (f32 (1 / 10)) 100),
            DrawElements_TRIANGLES 6 0, SwapBuffers, PollEvents, ShouldClose,
            DeleteVertexArrays VAO, DeleteBuffers VBO, DeleteBuffers EBO, Terminate]) \<and>
   (\<exists>w'. frame_loop (Suc fuel) (frame_two_triangles e VAO red yellow) w = Some w' \<and>
         should_close w' \<and>
         calls_between w (shutdown VAO VBO EBO w') =
           [ShouldClose, GetKey_Escape, SetShouldClose True,
            ClearColor 0 1 0 1, Clear True False, BindVertexArray VAO, UseProgram red,
            DrawElements_TRIANGLES 3 0, UseProgram yellow, DrawElements_TRIANGLES 3 12,
            SwapBuffers, PollEvents, ShouldClose,
            DeleteVertexArrays VAO, DeleteBuffers VBO, DeleteBuffers EBO, Terminate]) \<and>
   (\<exists>w'. frame_loop (Suc fuel) (frame_cubes lib fu e VAO p ml vl pl) w = Some w' \<and>
         should_close w' \<and>
         calls_between w (shutdown VAO VBO EBO w') =
           [ShouldClose, GetKey_Escape, SetShouldClose True,
            ClearColor 0 0 0 1, Clear True True, BindVertexArray VAO, UseProgram p,
            UniformMatrix4fv vl (Mul4 lib (Ident4 lib) (Translate3D lib 0 0 (- 3))),
            UniformMatrix4fv pl (Mul4 lib (Ident4 lib)
                                  (Perspective lib (DegToRad 45) (5 / 4) (f32 (1 / 10)) 100))] @
           concat (map (\<lambda>i. instance_calls lib fu e ml i (time_reads w + i)) [0..<10]) @
           [SwapBuffers, PollEvents, ShouldClose,
            DeleteVertexArrays VAO, DeleteBuffers VBO, DeleteBuffers EBO, Terminate])"
proof (intro conjI)
  let ?w1 = "emit ShouldClose w"
  have w1: "escape_key ?w1 = Press" "\<not> should_close ?w1" "time_reads ?w1 = time_reads w"
    "trace ?w1 = trace w @ [ShouldClose]"
    using assms by (simp_all add: emit_fields)
  {
    let ?body = "frame_render lib e VAO p ml vl pl"
    let ?w' = "emit ShouldClose (?body ?w1)"
    have c: "should_close (?body ?w1)" by (simp add: frame_render_should_close w1 assms)
    have l: "frame_loop (Suc fuel) ?body w = Some ?w'"
      using assms(1) c by (rule frame_loop_last_frame)
    have "trace (shutdown VAO VBO EBO ?w') = trace w @
           [ShouldClose, GetKey_Escape, SetShouldClose True,
            ClearColor 0 1 0 1, Clear True False, BindVertexArray VAO, UseProgram p,
            UniformMatrix4fv ml (HomogRotate3D lib (DegToRad (- 55)) (1, 0, 0)),
            UniformMatrix4fv vl (Translate3D lib 0 0 (- 3)),
            UniformMatrix4fv pl (Perspective lib (DegToRad 45) (5 / 4) (f32 (1 / 10)) 100),
            DrawElements_TRIANGLES 6 0, SwapBuffers, PollEvents, ShouldClose,
            DeleteVertexArrays VAO, DeleteBuffers VBO, DeleteBuffers EBO, Terminate]"
      by (simp add: shutdown_trace emit_fields frame_render_trace w1 assms)
    then have "calls_between w (shutdown VAO VBO EBO ?w') =
           [ShouldClose, GetKey_Escape, SetShouldClose True,
            ClearColor 0 1 0 1, Clear True False, BindVertexArray VAO, UseProgram p,
            UniformMatrix4fv ml (HomogRotate3D lib (DegToRad (- 55)) (1, 0, 0)),
            UniformMatrix4fv vl (Translate3D lib 0 0 (- 3)),
            UniformMatrix4fv pl (Perspective lib (DegToRad 45) (5 / 4) (f32 (1 / 10)) 100),
            DrawElements_TRIANGLES 6 0, SwapBuffers, PollEvents, ShouldClose,
            DeleteVertexArrays VAO, DeleteBuffers VBO, DeleteBuffers EBO, Terminate]"
      by (rule calls_between_append)
    with l c show "\<exists>w'. frame_loop (Suc fuel) ?body w = Some w' \<and> should_close w' \<and>
         calls_between w (shutdown VAO VBO EBO w') =
           [ShouldClose, GetKey_Escape, SetShouldClose True,
            ClearColor 0 1 0 1, Clear True False, BindVertexArray VAO, UseProgram p,
            UniformMatrix4fv ml (HomogRotate3D lib (DegToRad (- 55)) (1, 0, 0)),
            UniformMatrix4fv vl (Translate3D lib 0 0 (- 3)),
            UniformMatrix4fv pl (Perspective lib (DegToRad 45) (5 / 4) (f32 (1 / 10)) 100),
            DrawElements_TRIANGLES 6 0, SwapBuffers, PollEvents, ShouldClose,
            DeleteVertexArrays VAO, DeleteBuffers VBO, DeleteBuffers EBO, Terminate]"
      by (intro exI[of _ ?w']) (simp add: emit_fields)
  }
  {
    let ?body = "frame_two_triangles e VAO red yellow"
    let ?w' = "emit ShouldClose (?body ?w1)"
    have c: "should_close (?body ?w1)" by (simp add: frame_two_triangles_should_close w1 assms)
    have l: "frame_loop (Suc fuel) ?body w = Some ?w'"
      using assms(1) c by (rule frame_loop_last_frame)
    have "trace (shutdown VAO VBO EBO ?w') = trace w @
           [ShouldClose, GetKey_Escape, SetShouldClose True,
            ClearColor 0 1 0 1, Clear True False, BindVertexArray VAO, UseProgram red,
            DrawElements_TRIANGLES 3 0, UseProgram yellow, DrawElements_TRIANGLES 3 12,
            SwapBuffers, PollEvents, ShouldClose,
            DeleteVertexArrays VAO, DeleteBuffers VBO, DeleteBuffers EBO, Terminate]"
      by (simp add: shutdown_trace emit_fields frame_two_triangles_trace w1 assms)
    then have "calls_between w (shutdown VAO VBO EBO ?w') =
           [ShouldClose, GetKey_Escape, SetShouldClose True,
            ClearColor 0 1 0 1, Clear True False, BindVertexArray VAO, UseProgram red,
            DrawElements_TRIANGLES 3 0, UseProgram yellow, DrawElements_TRIANGLES 3 12,
            SwapBuffers, PollEvents, ShouldClose,
            DeleteVertexArrays VAO, DeleteBuffers VBO, DeleteBuffers EBO, Terminate]"
      by (rule calls_between_append)
    with l c show "\<exists>w'. frame_loop (Suc fuel) ?body w = Some w' \<and> should_close w' \<and>
         calls_between w (shutdown VAO VBO EBO w') =
           [ShouldClose, GetKey_Escape, SetShouldClose True,
            ClearColor 0 1 0 1, Clear True False, BindVertexArray VAO, UseProgram red,
            DrawElements_TRIANGLES 3 0, UseProgram yellow, DrawElements_TRIANGLES 3 12,
            SwapBuffers, PollEvents, ShouldClose,
            DeleteVertexArrays VAO, DeleteBuffers VBO, DeleteBuffers EBO, Terminate]"
      by (intro exI[of _ ?w']) (simp add: emit_fields)
  }
  {
    let ?body = "frame_cubes lib fu e VAO p ml vl pl"
    let ?w' = "emit ShouldClose (?body ?w1)"
    let ?cs = "[ShouldClose, GetKey_Escape, SetShouldClose True,
            ClearColor 0 0 0 1, Clear True True, BindVertexArray VAO, UseProgram p,
            UniformMatrix4fv vl (Mul4 lib (Ident4 lib) (Translate3D lib 0 0 (- 3))),
            UniformMatrix4fv pl (Mul4 lib (Ident4 lib)
                                  (Perspective lib (DegToRad 45) (5 / 4) (f32 (1 / 10)) 100))] @
           concat (map (\<lambda>i. instance_calls lib fu e ml i (time_reads w + i)) [0..<10]) @
           [SwapBuffers, PollEvents, ShouldClose,
            DeleteVertexArrays VAO, DeleteBuffers VBO, DeleteBuffers EBO, Terminate]"
    have c: "should_close (?body ?w1)" by (simp add: frame_cubes_should_close w1 assms)
    have l: "frame_loop (Suc fuel) ?body w = Some ?w'"
      using assms(1) c by (rule frame_loop_last_frame)
    have "trace (shutdown VAO VBO EBO ?w') = trace w @ ?cs"
      by (simp add: shutdown_trace emit_fields frame_cubes_trace w1 assms)
    then have "calls_between w (shutdown VAO VBO EBO ?w') = ?cs"
      by (rule calls_between_append)
    with l c show "\<exists>w'. frame_loop (Suc fuel) ?body w = Some w' \<and> should_close w' \<and>
         calls_between w (shutdown VAO VBO EBO w') = ?cs"
      by (intro exI[of _ ?w']) (simp add: emit_fields)
  }
qed

theorem escape_ends_loop_after_the_frame_witness:
  "\<not> should_close ((initial_world :: mat4 world)\<lparr>escape_key := Press\<rparr>) \<and>
   escape_key ((initial_world :: mat4 world)\<lparr>escape_key := Press\<rparr>) = Press \<and>
   map_option should_close
     (frame_loop (Suc 0) (frame_render free_mgl32 (sample_env 1 1) 4 3 0 1 2)
        ((initial_world :: mat4 world)\<lparr>escape_key := Press\<rparr>)) = Some True \<and>
   main_render free_mgl32 (sample_env 1 1) 3 = None \<and>
   map_option (map_sum id (\<lambda>w. filter is_draw (trace w))) (main_render free_mgl32 (sample_env 1 1) 4)
     = Some (Inr (replicate 4 (DrawElements_TRIANGLES 6 0)))"
proof -
  let ?w = "(initial_world :: mat4 world)\<lparr>escape_key := Press\<rparr>"
  have h: "\<not> should_close ?w" "escape_key ?w = Press" by (simp_all add: initial_world_simps)
  from escape_ends_loop_after_the_frame [OF h, of 0 free_mgl32 "sample_env 1 1" 4 3 0 1 2]
  obtain w' where
    "frame_loop (Suc 0) (frame_render free_mgl32 (sample_env 1 1) 4 3 0 1 2) ?w = Some w'"
    "should_close w'"
    by blast
  then show ?thesis using h run_render run_render_short by simp
qed

subsection \<open>The instances\<close>

text \<open>
  C9. \<^verbatim>\<open>cubePositions\<close> has ten entries; it is a constant here, as the frame loop of the
  source only reads it. Every frame of the animated-cubes program makes the calls of
  the instances 0 to 9 in this order, its draw calls are exactly ten
  \<^verbatim>\<open>DrawArrays(TRIANGLES, 0, 36)\<close>, and the model matrix uploaded before the draw call of
  instance \<open>i\<close> has the translation by \<open>cubePositions[i]\<close>.
\<close>

theorem ten_draw_calls_per_frame:
  "length cubePositions = 10 \<and>
   calls_between w (frame_cubes lib fu e VAO p ml vl pl w) =
     GetKey_Escape # (if escape_key w = Press then [SetShouldClose True] else []) @
     [ClearColor 0 0 0 1, Clear True True, BindVertexArray VAO, UseProgram p,
      UniformMatrix4fv vl (Mul4 lib (Ident4 lib) (Translate3D lib 0 0 (- 3))),
      UniformMatrix4fv pl (Mul4 lib (Ident4 lib)
                            (Perspective lib (DegToRad 45) (5 / 4) (f32 (1 / 10)) 100))] @
     concat (map (\<lambda>i. instance_calls lib fu e ml i (time_reads w + i)) [0..<10]) @
     [SwapBuffers, PollEvents] \<and>
   filter is_draw (calls_between w (frame_cubes lib fu e VAO p ml vl pl w)) =
     replicate 10 (DrawArrays_TRIANGLES 0 36) \<and>
   instance_calls lib fu e ml i k =
     [GetTime,
      UniformMatrix4fv ml
        (Mul4 lib (Mul4 lib (Ident4 lib)
                     (case cubePositions ! i of (x, y, z) \<Rightarrow> Translate3D lib x y z))
           (HomogRotate3D lib (DegToRad (rotation_angle fu i (clock e k)))
              (Vec3_Normalize (1 / 2, 1, 0)))),
      DrawArrays_TRIANGLES 0 36]"
proof -
  have "filter is_draw (calls_between w (frame_cubes lib fu e VAO p ml vl pl w)) =
     replicate 10 (DrawArrays_TRIANGLES 0 36)"
    unfolding frame_cubes_calls
    by (simp add: draws_of_instances is_draw_def map_replicate_const)
  then show ?thesis
    using frame_cubes_calls[of w lib fu e VAO p ml vl pl] instance_calls_eq[of lib fu e ml i k]
    by (simp add: cubePositions_def)
qed

theorem ten_draw_calls_per_frame_witness:
  "filter is_draw (calls_between (initial_world :: mat4 world)
      (frame_cubes free_mgl32 Unfused (sample_env 1 1) 4 3 0 1 2 initial_world)) =
     replicate 10 (DrawArrays_TRIANGLES 0 36) \<and>
   length cubePositions = 10"
  using ten_draw_calls_per_frame
    [of "initial_world :: mat4 world" free_mgl32 Unfused "sample_env 1 1" 4 3 0 1 2 0 0]
  by blast

end
